theory Spec2Isabelle
  imports Complex_Main
begin

section \<open>JavaScript values used by the version comparator\<close>

text \<open>
  \<^verbatim>\<open>compareVersions\<close> of \<^verbatim>\<open>LaunchpadSidebarProvider\<close> splits both
  strings at the dots, maps \<^verbatim>\<open>Number\<close> over the pieces and compares
  \<^verbatim>\<open>(p1[i] || 0)\<close> with \<^verbatim>\<open>(p2[i] || 0)\<close> for \<^verbatim>\<open>i = 0, 1, 2\<close>.

  A JavaScript number is modelled by \<open>jsnum\<close>: not-a-number, the two infinities, or
  a finite value. Finite values are exact rationals: the rounding of IEEE doubles (values
  beyond \<open>2^53\<close>, overflow to infinity, underflow to zero) is not part of the model.
  The general theorems below never unfold \<open>Number\<close>, so they hold for every
  string-to-number conversion.
\<close>

datatype jsnum = NaN | NegInf | Fin rat | PosInf

text \<open>The relational operator \<^verbatim>\<open><\<close> on numbers: false as soon as one side is NaN.\<close>

fun js_lt :: "jsnum \<Rightarrow> jsnum \<Rightarrow> bool" where
  "js_lt NaN _ = False"
| "js_lt _ NaN = False"
| "js_lt NegInf NegInf = False"
| "js_lt NegInf _ = True"
| "js_lt (Fin a) NegInf = False"
| "js_lt (Fin a) (Fin b) = (a < b)"
| "js_lt (Fin a) PosInf = True"
| "js_lt PosInf _ = False"

definition js_gt :: "jsnum \<Rightarrow> jsnum \<Rightarrow> bool" where
  "js_gt a b = js_lt b a"

text \<open>Truthiness of a number: NaN and zero are falsy.\<close>

fun truthy :: "jsnum \<Rightarrow> bool" where
  "truthy NaN = False"
| "truthy (Fin q) = (q \<noteq> 0)"
| "truthy _ = True"

text \<open>
  \<^verbatim>\<open>p[i]\<close> on an array: the element, or \<^verbatim>\<open>undefined\<close> (here \<open>None\<close>) when
  \<open>i\<close> is not an index of the array.
\<close>

definition idx :: "'a list \<Rightarrow> nat \<Rightarrow> 'a option" where
  "idx p i = (if i < length p then Some (p ! i) else None)"

text \<open>\<^verbatim>\<open>(x || 0)\<close> for \<open>x\<close> a number or \<^verbatim>\<open>undefined\<close>.\<close>

fun or_zero :: "jsnum option \<Rightarrow> jsnum" where
  "or_zero None = Fin 0"
| "or_zero (Some x) = (if truthy x then x else Fin 0)"

subsection \<open>\<^verbatim>\<open>String.prototype.split('.')\<close>\<close>

text \<open>The empty string splits into one empty piece; \<open>n\<close> dots give \<open>n + 1\<close> pieces.\<close>

fun split_dot :: "string \<Rightarrow> string list" where
  "split_dot [] = [[]]"
| "split_dot (c # cs) =
     (if c = CHR ''.'' then [] # split_dot cs
      else (case split_dot cs of
              [] \<Rightarrow> [[c]]
            | w # ws \<Rightarrow> (c # w) # ws))"

subsection \<open>\<^verbatim>\<open>Number(string)\<close>\<close>

text \<open>
  The conversion follows the StringNumericLiteral grammar of ECMAScript: surrounding white
  space is dropped, the empty string is \<open>0\<close>, then either a binary, octal or
  hexadecimal integer literal (\<^verbatim>\<open>0b\<close>, \<^verbatim>\<open>0o\<close>, \<^verbatim>\<open>0x\<close>, no sign) or an optionally
  signed decimal literal (\<^verbatim>\<open>Infinity\<close>, or digits with an optional fraction and
  exponent). Everything else is NaN. A \<open>char\<close> is a code unit below 256; among these
  the white space of the grammar is TAB, LF, VT, FF, CR, SP and NBSP (\<open>0xA0\<close>). Strings
  with code units from 256 on (where U+FEFF and the other Unicode spaces live) are outside
  the model.
\<close>

definition is_ws :: "char \<Rightarrow> bool" where
  "is_ws c = (c \<in> set [CHR 0x09, CHR 0x0A, CHR 0x0B, CHR 0x0C, CHR 0x0D, CHR '' '', CHR 0xA0])"

definition trim :: "string \<Rightarrow> string" where
  "trim s = rev (dropWhile is_ws (rev (dropWhile is_ws s)))"

definition digit_val :: "char \<Rightarrow> nat option" where
  "digit_val c =
     (let n = (of_char c :: nat) in
      if 48 \<le> n \<and> n \<le> 57 then Some (n - 48)
      else if 97 \<le> n \<and> n \<le> 102 then Some (n - 87)
      else if 65 \<le> n \<and> n \<le> 70 then Some (n - 55)
      else None)"

fun digits_acc :: "nat \<Rightarrow> nat \<Rightarrow> string \<Rightarrow> nat option" where
  "digits_acc b acc [] = Some acc"
| "digits_acc b acc (c # cs) =
     (case digit_val c of
        None \<Rightarrow> None
      | Some d \<Rightarrow> if d < b then digits_acc b (acc * b + d) cs else None)"

text \<open>A non-empty run of digits of base \<open>b\<close>.\<close>

definition digits :: "nat \<Rightarrow> string \<Rightarrow> nat option" where
  "digits b s = (if s = [] then None else digits_acc b 0 s)"

definition digits_opt :: "string \<Rightarrow> nat option" where
  "digits_opt s = (if s = [] then Some 0 else digits 10 s)"

definition signed_integer :: "string \<Rightarrow> int option" where
  "signed_integer s =
     (case s of
        [] \<Rightarrow> None
      | c # r \<Rightarrow>
          if c = CHR ''+'' then map_option int (digits 10 r)
          else if c = CHR ''-'' then map_option (\<lambda>n. - int n) (digits 10 r)
          else map_option int (digits 10 s))"

definition mantissa :: "string \<Rightarrow> rat option" where
  "mantissa m =
     (let ip = takeWhile (\<lambda>c. c \<noteq> CHR ''.'') m;
          r = dropWhile (\<lambda>c. c \<noteq> CHR ''.'') m
      in case r of
           [] \<Rightarrow> map_option of_nat (digits 10 ip)
         | _ # fp \<Rightarrow>
             if ip = [] \<and> fp = [] then None
             else (case (digits_opt ip, digits_opt fp) of
                     (Some a, Some b) \<Rightarrow> Some (of_nat a + of_nat b / 10 ^ length fp)
                   | _ \<Rightarrow> None))"

definition is_exp :: "char \<Rightarrow> bool" where
  "is_exp c = (c = CHR ''e'' \<or> c = CHR ''E'')"

definition scale10 :: "rat \<Rightarrow> int \<Rightarrow> rat" where
  "scale10 q k = (if 0 \<le> k then q * 10 ^ nat k else q / 10 ^ nat (- k))"

definition unsigned_decimal :: "string \<Rightarrow> jsnum" where
  "unsigned_decimal s =
     (if s = ''Infinity'' then PosInf
      else
        let m = takeWhile (\<lambda>c. \<not> is_exp c) s;
            r = dropWhile (\<lambda>c. \<not> is_exp c) s
        in case r of
             [] \<Rightarrow> (case mantissa m of None \<Rightarrow> NaN | Some q \<Rightarrow> Fin q)
           | _ # e \<Rightarrow>
               (case (mantissa m, signed_integer e) of
                  (Some q, Some k) \<Rightarrow> Fin (scale10 q k)
                | _ \<Rightarrow> NaN))"

fun js_neg :: "jsnum \<Rightarrow> jsnum" where
  "js_neg NaN = NaN"
| "js_neg NegInf = PosInf"
| "js_neg (Fin q) = Fin (- q)"
| "js_neg PosInf = NegInf"

definition decimal_literal :: "string \<Rightarrow> jsnum" where
  "decimal_literal s =
     (case s of
        [] \<Rightarrow> NaN
      | c # r \<Rightarrow>
          if c = CHR ''+'' then unsigned_decimal r
          else if c = CHR ''-'' then js_neg (unsigned_decimal r)
          else unsigned_decimal s)"

definition non_decimal_literal :: "string \<Rightarrow> nat option" where
  "non_decimal_literal s =
     (case s of
        z # x # ds \<Rightarrow>
          if z \<noteq> CHR ''0'' then None
          else if x = CHR ''b'' \<or> x = CHR ''B'' then digits 2 ds
          else if x = CHR ''o'' \<or> x = CHR ''O'' then digits 8 ds
          else if x = CHR ''x'' \<or> x = CHR ''X'' then digits 16 ds
          else None
      | _ \<Rightarrow> None)"

definition Number :: "string \<Rightarrow> jsnum" where
  "Number s =
     (let t = trim s in
      if t = [] then Fin 0
      else (case non_decimal_literal t of
              Some n \<Rightarrow> Fin (of_nat n)
            | None \<Rightarrow> decimal_literal t))"

section \<open>VersionComparator: \<^verbatim>\<open>compareVersions\<close>\<close>

text \<open>
  \<^verbatim>\<open>
  private compareVersions(v1: string, v2: string): number {
      if (!v1 || !v2 || v1 === 'unknown' || v2 === 'unknown') return 0;
      const p1 = v1.split('.').map(Number);
      const p2 = v2.split('.').map(Number);
      for (let i = 0; i < 3; i++) {
          if ((p1[i] || 0) > (p2[i] || 0)) return 1;
          if ((p1[i] || 0) < (p2[i] || 0)) return -1;
      }
      return 0;
  }
  \<close>
  The loop is the recursion \<open>compare_from\<close> on the index \<open>i\<close>.
\<close>

function compare_from :: "jsnum list \<Rightarrow> jsnum list \<Rightarrow> nat \<Rightarrow> int" where
  "compare_from p1 p2 i =
     (if i < 3 then
        (if js_gt (or_zero (idx p1 i)) (or_zero (idx p2 i)) then 1
         else if js_lt (or_zero (idx p1 i)) (or_zero (idx p2 i)) then - 1
         else compare_from p1 p2 (i + 1))
      else 0)"
  by pat_completeness auto
termination
  by (relation "measure (\<lambda>(p1, p2, i). 3 - i)") auto

declare compare_from.simps [simp del]

definition compareVersions :: "string \<Rightarrow> string \<Rightarrow> int" where
  "compareVersions v1 v2 =
     (if v1 = [] \<or> v2 = [] \<or> v1 = ''unknown'' \<or> v2 = ''unknown'' then 0
      else
        let p1 = map Number (split_dot v1);
            p2 = map Number (split_dot v2)
        in compare_from p1 p2 0)"

section \<open>The collaborators\<close>

text \<open>
  Everything the provider reaches outside itself is a field of \<open>sys\<close>, applied to an
  explicit world state \<open>'w\<close> (the file system, the extension host, the clock):
  \<^item> \<open>stat w p\<close> is \<^verbatim>\<open>(await vscode.workspace.fs.stat(Uri.file(p))).mtime\<close>, in
    milliseconds, and \<open>None\<close> when the call throws (the file is missing);
  \<^item> \<open>readManifest w f\<close> is \<^verbatim>\<open>JSON.parse((await fs.readFile(f)).toString())\<close>,
    \<open>None\<close> when reading or parsing throws;
  \<^item> \<open>runCompile\<close> and \<open>packageExtension\<close> are the two \<^verbatim>\<open>Publisher\<close> calls and
    \<open>installExtension\<close> is the command
    \<^verbatim>\<open>workbench.extensions.installExtension\<close>: each returns \<open>Inl message\<close> when
    the promise rejects, \<open>Inr\<close> otherwise, together with the world it leaves;
  \<^item> \<open>path_join\<close>, \<open>path_basename\<close>, \<open>path_dirname\<close> are the functions of Node's
    \<^verbatim>\<open>path\<close> module, and \<open>formatTime\<close> is the provider's formatting of a time
    stamp relative to the current clock.
  Reading (\<open>stat\<close>, \<open>readManifest\<close>) does not change the world.
\<close>

record manifest =
  name :: "string option"
  displayName :: "string option"
  version :: "string option"
  publisher :: "string option"
  compileScript :: "string option"

text \<open>
  The fields of a \<^verbatim>\<open>package.json\<close> that the provider reads, \<open>None\<close> for a field
  that is \<^verbatim>\<open>undefined\<close>; \<open>compileScript\<close> is \<^verbatim>\<open>content.scripts?.compile\<close>.
\<close>

record 'w sys =
  stat :: "'w \<Rightarrow> string \<Rightarrow> int option"
  readManifest :: "'w \<Rightarrow> string \<Rightarrow> manifest option"
  runCompile :: "string \<Rightarrow> 'w \<Rightarrow> (string + string) \<times> 'w"
  packageExtension :: "string \<Rightarrow> 'w \<Rightarrow> (string + string) \<times> 'w"
  installExtension :: "string \<Rightarrow> 'w \<Rightarrow> (string + unit) \<times> 'w"
  path_join :: "string \<Rightarrow> string \<Rightarrow> string"
  path_basename :: "string \<Rightarrow> string"
  path_dirname :: "string \<Rightarrow> string"
  formatTime :: "'w \<Rightarrow> int \<Rightarrow> string"

text \<open>An installed extension: \<^verbatim>\<open>ext.packageJSON\<close> and \<^verbatim>\<open>ext.extensionPath\<close>.\<close>

record extension =
  packageJSON :: manifest
  extensionPath :: string

text \<open>Truthiness of a string or \<^verbatim>\<open>undefined\<close>, and \<^verbatim>\<open>a || b\<close> on such values.\<close>

fun truthy_str :: "string option \<Rightarrow> bool" where
  "truthy_str None = False"
| "truthy_str (Some s) = (s \<noteq> [])"

definition or_else :: "string option \<Rightarrow> string option \<Rightarrow> string option" where
  "or_else a b = (if truthy_str a then a else b)"

text \<open>A value inside a template literal: \<^verbatim>\<open>undefined\<close> prints as its name.\<close>

fun tmpl :: "string option \<Rightarrow> string" where
  "tmpl None = ''undefined''"
| "tmpl (Some s) = s"

text \<open>
  \<^verbatim>\<open>toLowerCase\<close> on code units below 256: the letters A to Z, and the Latin-1
  capitals \<open>0xC0\<close> to \<open>0xDE\<close> without the multiplication sign \<open>0xD7\<close>.
\<close>

definition lower_char :: "char \<Rightarrow> char" where
  "lower_char c =
     (let n = (of_char c :: nat) in
      if 65 \<le> n \<and> n \<le> 90 then char_of (n + 32)
      else if 192 \<le> n \<and> n \<le> 222 \<and> n \<noteq> 215 then char_of (n + 32)
      else c)"

definition toLowerCase :: "string \<Rightarrow> string" where
  "toLowerCase s = map lower_char s"

text \<open>
  \<^verbatim>\<open>path.join(projectPath, `${name}-${version}.vsix`.toLowerCase())\<close>, the artifact of
  both the scan and the build; and \<^verbatim>\<open>path.join(projectPath, 'src')\<close>.
\<close>

definition vsix_path :: "'w sys \<Rightarrow> string \<Rightarrow> string option \<Rightarrow> string option \<Rightarrow> string" where
  "vsix_path sys projectPath n v =
     path_join sys projectPath (toLowerCase (tmpl n @ ''-'' @ tmpl v @ ''.vsix''))"

definition src_path :: "'w sys \<Rightarrow> string \<Rightarrow> string" where
  "src_path sys projectPath = path_join sys projectPath ''src''"

text \<open>
  A version handed to \<open>compareVersions\<close>: \<^verbatim>\<open>undefined\<close> is falsy like the empty
  string, and the first line of the comparator returns \<open>0\<close> for both, so an undefined
  version is passed as the empty string.
\<close>

fun version_arg :: "string option \<Rightarrow> string" where
  "version_arg None = []"
| "version_arg (Some s) = s"

section \<open>StalenessOracle and StatusClassifier: \<^verbatim>\<open>scanForSuite\<close>\<close>

datatype status = New | Update | Installed | Stale

record artifact_check =
  isStale :: bool
  vsixExists :: bool
  vsixModifiedTime :: string

text \<open>
  Lines 266 to 285:
  \<^verbatim>\<open>
  let isStale = false;
  let vsixModifiedTime = 'N/A';
  let vsixExists = false;
  try {
      const stats = await vscode.workspace.fs.stat(vsixUri);
      vsixExists = true;
      vsixModifiedTime = this.formatTime(new Date(stats.mtime));
      const srcUri = vscode.Uri.file(path.join(projectPath, 'src'));
      try {
          const srcStats = await vscode.workspace.fs.stat(srcUri);
          if (srcStats.mtime > stats.mtime) { isStale = true; }
      } catch { }
  } catch {
      isStale = true;
  }
  \<close>
\<close>

definition check_artifact :: "'w sys \<Rightarrow> 'w \<Rightarrow> string \<Rightarrow> string \<Rightarrow> artifact_check" where
  "check_artifact sys w projectPath vsixPath =
     (case stat sys w vsixPath of
        None \<Rightarrow> \<lparr>isStale = True, vsixExists = False, vsixModifiedTime = ''N/A''\<rparr>
      | Some mtime \<Rightarrow>
          \<lparr>isStale =
             (case stat sys w (src_path sys projectPath) of
                None \<Rightarrow> False
              | Some srcMtime \<Rightarrow> srcMtime > mtime),
           vsixExists = True,
           vsixModifiedTime = formatTime sys w mtime\<rparr>)"

text \<open>
  \<^verbatim>\<open>vscode.extensions.all.find(ext => ext.packageJSON.name === pkg.name &&
  ext.packageJSON.publisher === pkg.publisher)\<close>: the first match, if any.
\<close>

definition find_installed :: "extension list \<Rightarrow> manifest \<Rightarrow> extension option" where
  "find_installed exts pkg =
     find (\<lambda>ext. name (packageJSON ext) = name pkg
               \<and> publisher (packageJSON ext) = publisher pkg) exts"

definition installed_manifest :: "'w sys \<Rightarrow> extension \<Rightarrow> string" where
  "installed_manifest sys ext = path_join sys (extensionPath ext) ''package.json''"

text \<open>
  Lines 291 to 318, the status of one project. The result is \<open>None\<close> when an exception
  leaves the block: the second \<^verbatim>\<open>stat\<close> of the artifact (line 299) is outside the inner
  \<^verbatim>\<open>try\<close>, so its failure reaches the \<^verbatim>\<open>catch (e) { }\<close> of the loop body and the
  project gets no entry.
  \<^verbatim>\<open>
  let status = 'new';
  if (installed) {
      const vComp = this.compareVersions(pkg.version, installed.packageJSON.version);
      if (vComp > 0) { status = 'update'; }
      else if (isStale) { status = 'stale'; }
      else if (vsixExists) {
          const stats = await vscode.workspace.fs.stat(vsixUri);
          const installedPkg = path.join(installed.extensionPath, 'package.json');
          try {
              const instStats = await vscode.workspace.fs.stat(vscode.Uri.file(installedPkg));
              if (stats.mtime > instStats.mtime + 5000) { status = 'update'; }
              else { status = 'installed'; }
          } catch { status = 'installed'; }
      } else { status = 'installed'; }
  } else if (vsixExists) { status = 'new'; }
  else { status = 'stale'; }
  \<close>
\<close>

definition classify ::
  "'w sys \<Rightarrow> 'w \<Rightarrow> manifest \<Rightarrow> extension option \<Rightarrow> string \<Rightarrow> artifact_check \<Rightarrow> status option"
where
  "classify sys w pkg installed vsixPath chk =
     (case installed of
        Some inst \<Rightarrow>
          if compareVersions (version_arg (version pkg))
               (version_arg (version (packageJSON inst))) > 0
          then Some Update
          else if isStale chk then Some Stale
          else if vsixExists chk then
            (case stat sys w vsixPath of
               None \<Rightarrow> None
             | Some mtime \<Rightarrow>
                 (case stat sys w (installed_manifest sys inst) of
                    Some instMtime \<Rightarrow>
                      if mtime > instMtime + 5000 then Some Update else Some Installed
                  | None \<Rightarrow> Some Installed))
          else Some Installed
      | None \<Rightarrow> if vsixExists chk then Some New else Some Stale)"

record suite_entry =
  entry_name :: "string option"
  entry_path :: string
  entry_version :: "string option"
  entry_status :: status
  installedVersion :: "string option"
  modifiedTime :: string

text \<open>
  The body of the loop over the manifests found: \<open>None\<close> when the file is skipped (it
  cannot be read or parsed, it has no publisher, or an exception reached the
  \<^verbatim>\<open>catch\<close> of the body).
\<close>

definition scan_file :: "'w sys \<Rightarrow> 'w \<Rightarrow> extension list \<Rightarrow> string \<Rightarrow> suite_entry option" where
  "scan_file sys w exts file =
     (case readManifest sys w file of
        None \<Rightarrow> None
      | Some pkg \<Rightarrow>
          if \<not> truthy_str (publisher pkg) then None
          else
            let projectPath = path_dirname sys file;
                vsixPath = vsix_path sys projectPath (name pkg) (version pkg);
                chk = check_artifact sys w projectPath vsixPath;
                installed = find_installed exts pkg
            in (case classify sys w pkg installed vsixPath chk of
                  None \<Rightarrow> None
                | Some st \<Rightarrow>
                    Some \<lparr>entry_name = or_else (displayName pkg) (name pkg),
                          entry_path = vsixPath,
                          entry_version = version pkg,
                          entry_status = st,
                          installedVersion =
                            (case installed of
                               None \<Rightarrow> None
                             | Some inst \<Rightarrow> version (packageJSON inst)),
                          modifiedTime = vsixModifiedTime chk\<rparr>))"

text \<open>
  \<^verbatim>\<open>scanForSuite\<close>: nothing without a workspace folder, otherwise the entries of the
  files found, in order, posted to the view.
\<close>

definition scanForSuite ::
  "'w sys \<Rightarrow> 'w \<Rightarrow> bool \<Rightarrow> extension list \<Rightarrow> string list \<Rightarrow> suite_entry list option"
where
  "scanForSuite sys w workspaceFolders exts packageJsons =
     (if \<not> workspaceFolders then None
      else Some (List.map_filter (scan_file sys w exts) packageJsons))"

section \<open>BuildOrchestrator: \<^verbatim>\<open>runCompileAll\<close>\<close>

record project =
  project_path :: string
  project_name :: "string option"
  project_version :: "string option"

text \<open>
  Lines 409 to 421: a manifest contributes a project when it can be read and parsed and
  \<^verbatim>\<open>content.publisher && content.scripts?.compile\<close> is truthy.
\<close>

definition collect_project :: "'w sys \<Rightarrow> 'w \<Rightarrow> string \<Rightarrow> project option" where
  "collect_project sys w file =
     (case readManifest sys w file of
        None \<Rightarrow> None
      | Some content \<Rightarrow>
          if truthy_str (publisher content) \<and> truthy_str (compileScript content)
          then Some \<lparr>project_path = path_dirname sys file,
                     project_name = name content,
                     project_version = version content\<rparr>
          else None)"

definition nexgenProjects :: "'w sys \<Rightarrow> 'w \<Rightarrow> string list \<Rightarrow> project list" where
  "nexgenProjects sys w packageJsons = List.map_filter (collect_project sys w) packageJsons"

text \<open>
  Lines 439 to 451, under the comment \<^verbatim>\<open>// Smart check: Only build if stale\<close>:
  \<^verbatim>\<open>
  let needsBuild = true;
  try {
      const stats = await vscode.workspace.fs.stat(vscode.Uri.file(vsixPath));
      const srcPath = path.join(project.path, 'src');
      try {
          const srcStats = await vscode.workspace.fs.stat(vscode.Uri.file(srcPath));
          if (srcStats.mtime < stats.mtime) { needsBuild = false; }
      } catch { }
  } catch { }
  \<close>
\<close>

definition needsBuild :: "'w sys \<Rightarrow> 'w \<Rightarrow> project \<Rightarrow> bool" where
  "needsBuild sys w p =
     (case stat sys w (vsix_path sys (project_path p) (project_name p) (project_version p)) of
        None \<Rightarrow> True
      | Some mtime \<Rightarrow>
          (case stat sys w (src_path sys (project_path p)) of
             None \<Rightarrow> True
           | Some srcMtime \<Rightarrow> if srcMtime < mtime then False else True))"

text \<open>The invocations of the build collaborator, in the order they are made.\<close>

datatype call = Compile string | Package string

record 'w build_state =
  successCount :: nat
  failedProjects :: "string list"
  calls :: "call list"
  world :: 'w

text \<open>
  The body of the loop over the projects (lines 436 to 468). A skipped project counts as
  a success; \<^verbatim>\<open>Publisher.packageExtension\<close> runs only after
  \<^verbatim>\<open>Publisher.runCompile\<close> resolved; a rejection of either is caught, the directory
  name of the project is pushed on \<^verbatim>\<open>failedProjects\<close> and the loop goes on.
\<close>

definition build_project :: "'w sys \<Rightarrow> project \<Rightarrow> 'w build_state \<Rightarrow> 'w build_state" where
  "build_project sys p st =
     (let projectName = path_basename sys (project_path p) in
      if \<not> needsBuild sys (world st) p then st\<lparr>successCount := successCount st + 1\<rparr>
      else
        (case runCompile sys (project_path p) (world st) of
           (Inl msg, w1) \<Rightarrow>
             st\<lparr>failedProjects := failedProjects st @ [projectName],
                calls := calls st @ [Compile (project_path p)],
                world := w1\<rparr>
         | (Inr out, w1) \<Rightarrow>
             (case packageExtension sys (project_path p) w1 of
                (Inl msg, w2) \<Rightarrow>
                  st\<lparr>failedProjects := failedProjects st @ [projectName],
                     calls := calls st @ [Compile (project_path p), Package (project_path p)],
                     world := w2\<rparr>
              | (Inr out2, w2) \<Rightarrow>
                  st\<lparr>successCount := successCount st + 1,
                     calls := calls st @ [Compile (project_path p), Package (project_path p)],
                     world := w2\<rparr>)))"

fun build_loop :: "'w sys \<Rightarrow> project list \<Rightarrow> 'w build_state \<Rightarrow> 'w build_state" where
  "build_loop sys [] st = st"
| "build_loop sys (p # ps) st = build_loop sys ps (build_project sys p st)"

datatype 'w compile_result = NoWorkspace | NothingToCompile | Finished "'w build_state"

text \<open>
  \<^verbatim>\<open>runCompileAll\<close>: it returns at once without a workspace folder, warns and returns
  when no project was collected, and otherwise runs the loop from
  \<^verbatim>\<open>successCount = 0\<close>, \<^verbatim>\<open>failedProjects = []\<close>. The final state carries the two
  values that the closing message reports.
\<close>

definition build_start :: "'w \<Rightarrow> 'w build_state" where
  "build_start w = \<lparr>successCount = 0, failedProjects = [], calls = [], world = w\<rparr>"

definition runCompileAll :: "'w sys \<Rightarrow> 'w \<Rightarrow> bool \<Rightarrow> string list \<Rightarrow> 'w compile_result" where
  "runCompileAll sys w workspaceFolders packageJsons =
     (if \<not> workspaceFolders then NoWorkspace
      else
        let ps = nexgenProjects sys w packageJsons in
        if length ps = 0 then NothingToCompile
        else Finished (build_loop sys ps (build_start w)))"

section \<open>InstallOrchestrator: \<^verbatim>\<open>installSuite\<close>\<close>

record 'w install_state =
  installedCount :: nat
  errorMessages :: "string list"
  attempts :: "string list"
  install_world :: 'w

text \<open>
  \<^verbatim>\<open>
  let installedCount = 0;
  for (const vsixPath of vsixPaths) {
      try {
          progress.report({ message: `Installing ${path.basename(vsixPath)}...` });
          await vscode.commands.executeCommand('workbench.extensions.installExtension',
                                               vscode.Uri.file(vsixPath));
          installedCount++;
      } catch (err: any) {
          vscode.window.showErrorMessage(
              `Failed to install ${path.basename(vsixPath)}: ${err.message}`);
      }
  }
  vscode.window.showInformationMessage(
      `Suite Sync Complete: ${installedCount} extensions installed/updated.`);
  \<close>
  \<open>attempts\<close> lists the paths handed to the install command, \<open>errorMessages\<close> the
  error messages shown, both in order; the closing message reports \<open>installedCount\<close>.
\<close>

definition install_one :: "'w sys \<Rightarrow> string \<Rightarrow> 'w install_state \<Rightarrow> 'w install_state" where
  "install_one sys vsixPath st =
     (case installExtension sys vsixPath (install_world st) of
        (Inr u, w1) \<Rightarrow>
          st\<lparr>installedCount := installedCount st + 1,
             attempts := attempts st @ [vsixPath],
             install_world := w1\<rparr>
      | (Inl msg, w1) \<Rightarrow>
          st\<lparr>errorMessages := errorMessages st @
                 [''Failed to install '' @ path_basename sys vsixPath @ '': '' @ msg],
             attempts := attempts st @ [vsixPath],
             install_world := w1\<rparr>)"

fun install_loop :: "'w sys \<Rightarrow> string list \<Rightarrow> 'w install_state \<Rightarrow> 'w install_state" where
  "install_loop sys [] st = st"
| "install_loop sys (vsixPath # rest) st = install_loop sys rest (install_one sys vsixPath st)"

definition installSuite :: "'w sys \<Rightarrow> 'w \<Rightarrow> string list \<Rightarrow> 'w install_state" where
  "installSuite sys w vsixPaths =
     install_loop sys vsixPaths
       \<lparr>installedCount = 0, errorMessages = [], attempts = [], install_world = w\<rparr>"

section \<open>Notions used to state the properties\<close>

text \<open>
  A well-formed three-component version: exactly three pieces between the dots, each a
  non-empty run of decimal digits.
\<close>

definition is_digit :: "char \<Rightarrow> bool" where
  "is_digit c = (let n = (of_char c :: nat) in 48 \<le> n \<and> n \<le> 57)"

definition well_formed :: "string \<Rightarrow> bool" where
  "well_formed v =
     (let ps = split_dot v
      in length ps = 3 \<and> list_all (\<lambda>s. s \<noteq> [] \<and> list_all is_digit s) ps)"

text \<open>A piece of a version that is a plain decimal number: a non-empty run of digits.\<close>

definition decimal_piece :: "string \<Rightarrow> bool" where
  "decimal_piece s = (s \<noteq> [] \<and> list_all is_digit s)"

text \<open>
  The value of the \<open>i\<close>-th piece of a version: zero when the piece is missing, zero
  when \<^verbatim>\<open>Number\<close> cannot read it, otherwise the number that \<^verbatim>\<open>Number\<close> reads.
\<close>

definition piece_value :: "string \<Rightarrow> nat \<Rightarrow> jsnum" where
  "piece_value v i =
     (case idx (split_dot v) i of
        None \<Rightarrow> Fin 0
      | Some s \<Rightarrow> (case Number s of NaN \<Rightarrow> Fin 0 | x \<Rightarrow> x))"

definition version_key :: "string \<Rightarrow> jsnum list" where
  "version_key v = [piece_value v 0, piece_value v 1, piece_value v 2]"

text \<open>The sign of a comparison of two numbers, and the lexicographic comparison of two keys.\<close>

definition cmp_num :: "jsnum \<Rightarrow> jsnum \<Rightarrow> int" where
  "cmp_num x y = (if js_lt x y then - 1 else if js_lt y x then 1 else 0)"

fun lex_compare :: "jsnum list \<Rightarrow> jsnum list \<Rightarrow> int" where
  "lex_compare (x # xs) (y # ys) = (if cmp_num x y \<noteq> 0 then cmp_num x y else lex_compare xs ys)"
| "lex_compare _ _ = 0"

text \<open>
  An eligible project of a suite build: its manifest can be read and has a publisher and
  a compile script.
\<close>

definition eligible :: "'w sys \<Rightarrow> 'w \<Rightarrow> string \<Rightarrow> bool" where
  "eligible sys w file =
     (case readManifest sys w file of
        None \<Rightarrow> False
      | Some content \<Rightarrow> truthy_str (publisher content) \<and> truthy_str (compileScript content))"

fun is_compile :: "call \<Rightarrow> bool" where
  "is_compile (Compile cwd) = True"
| "is_compile (Package cwd) = False"

text \<open>The build of a project succeeds in a world when compiling and then packaging resolve.\<close>

definition build_succeeds :: "'w sys \<Rightarrow> 'w \<Rightarrow> project \<Rightarrow> bool" where
  "build_succeeds sys w p =
     (case runCompile sys (project_path p) w of
        (Inl msg, w1) \<Rightarrow> False
      | (Inr out, w1) \<Rightarrow>
          (case packageExtension sys (project_path p) w1 of
             (Inl msg, w2) \<Rightarrow> False
           | (Inr out2, w2) \<Rightarrow> True))"

text \<open>
  What the install command answers when it is run on the paths one after the other, each
  run in the world the previous one left.
\<close>

fun install_outcomes :: "'w sys \<Rightarrow> string list \<Rightarrow> 'w \<Rightarrow> (string + unit) list" where
  "install_outcomes sys [] w = []"
| "install_outcomes sys (vsixPath # rest) w =
     (case installExtension sys vsixPath w of
        (r, w1) \<Rightarrow> r # install_outcomes sys rest w1)"

section \<open>A small workspace\<close>

text \<open>
  Three publishable projects and a manifest without publisher, with POSIX paths. The
  world is the list of the files that exist with their modification times. It is the
  concrete input at which the theorems below are instantiated.
\<close>

definition alpha_pkg :: manifest where
  "alpha_pkg = \<lparr>name = Some ''alpha'', displayName = Some ''Alpha'', version = Some ''1.2.0'',
                 publisher = Some ''acme'', compileScript = Some ''tsc -p ./''\<rparr>"

definition beta_pkg :: manifest where
  "beta_pkg = \<lparr>name = Some ''beta'', displayName = None, version = Some ''1.0.0'',
                publisher = Some ''acme'', compileScript = Some ''tsc -p ./''\<rparr>"

definition gamma_pkg :: manifest where
  "gamma_pkg = \<lparr>name = Some ''gamma'', displayName = None, version = Some ''0.3.0'',
                 publisher = Some ''acme'', compileScript = Some ''tsc -p ./''\<rparr>"

definition notes_pkg :: manifest where
  "notes_pkg = \<lparr>name = Some ''notes'', displayName = None, version = Some ''0.0.1'',
                 publisher = None, compileScript = None\<rparr>"

definition example_manifests :: "(string \<times> manifest) list" where
  "example_manifests =
     [(''/ws/alpha/package.json'', alpha_pkg),
      (''/ws/beta/package.json'', beta_pkg),
      (''/ws/notes/package.json'', notes_pkg),
      (''/ws/gamma/package.json'', gamma_pkg)]"

definition example_files :: "string list" where
  "example_files = map fst example_manifests @ [''/ws/broken/package.json'']"

definition example_sys :: "(string \<times> int) list sys" where
  "example_sys =
     \<lparr>stat = (\<lambda>w p. map_of w p),
      readManifest = (\<lambda>w f. map_of example_manifests f),
      runCompile = (\<lambda>cwd w. (Inr ''compiled'', w)),
      packageExtension = (\<lambda>cwd w. (Inr ''packaged'', w)),
      installExtension =
        (\<lambda>p w. if p = ''/ws/beta/beta-1.0.0.vsix'' then (Inl ''corrupt archive'', w)
                else (Inr (), w)),
      path_join = (\<lambda>a b. a @ ''/'' @ b),
      path_basename = (\<lambda>p. rev (takeWhile (\<lambda>c. c \<noteq> CHR ''/'') (rev p))),
      path_dirname = (\<lambda>p. rev (drop 1 (dropWhile (\<lambda>c. c \<noteq> CHR ''/'') (rev p)))),
      formatTime = (\<lambda>w t. ''just now'')\<rparr>"

text \<open>The same workspace with a compiler that always fails.\<close>

definition failing_sys :: "(string \<times> int) list sys" where
  "failing_sys = example_sys\<lparr>runCompile := (\<lambda>cwd w. (Inl ''Compile failed: exit 2'', w))\<rparr>"

text \<open>
  In \<open>example_world\<close> the artifacts of alpha and beta are newer than their sources and
  gamma has no artifact. In \<open>equal_world\<close> the artifact of beta is exactly as old as
  its source; in \<open>no_src_world\<close> beta has an artifact and no \<^verbatim>\<open>src\<close> folder.
\<close>

definition example_world :: "(string \<times> int) list" where
  "example_world =
     [(''/ws/alpha/alpha-1.2.0.vsix'', 20000), (''/ws/alpha/src'', 10000),
      (''/ws/beta/beta-1.0.0.vsix'', 20000), (''/ws/beta/src'', 15000),
      (''/ws/gamma/src'', 30000),
      (''/ext/acme.alpha/package.json'', 12000),
      (''/ext/acme.beta/package.json'', 12000),
      (''/ext/acme.beta-2/package.json'', 15000)]"

definition equal_world :: "(string \<times> int) list" where
  "equal_world = [(''/ws/beta/beta-1.0.0.vsix'', 20000), (''/ws/beta/src'', 20000)]"

definition no_src_world :: "(string \<times> int) list" where
  "no_src_world = [(''/ws/beta/beta-1.0.0.vsix'', 20000)]"

text \<open>
  In \<open>two_current_world\<close> the artifact of alpha is exactly as old as its source, beta has
  an artifact and no \<^verbatim>\<open>src\<close> folder, and gamma has no artifact: by the staleness test
  of the scan two projects are up to date and one is stale.
\<close>

definition two_current_world :: "(string \<times> int) list" where
  "two_current_world =
     [(''/ws/alpha/alpha-1.2.0.vsix'', 20000), (''/ws/alpha/src'', 20000),
      (''/ws/beta/beta-1.0.0.vsix'', 20000),
      (''/ws/gamma/src'', 30000)]"

definition project_alpha :: project where
  "project_alpha = \<lparr>project_path = ''/ws/alpha'', project_name = Some ''alpha'',
                     project_version = Some ''1.2.0''\<rparr>"

definition project_beta :: project where
  "project_beta = \<lparr>project_path = ''/ws/beta'', project_name = Some ''beta'',
                    project_version = Some ''1.0.0''\<rparr>"

definition project_gamma :: project where
  "project_gamma = \<lparr>project_path = ''/ws/gamma'', project_name = Some ''gamma'',
                     project_version = Some ''0.3.0''\<rparr>"

text \<open>
  Installed extensions: alpha at an older version; beta at the version of the workspace,
  once with a manifest much older than the artifact, once within the five seconds, and once
  with a manifest that cannot be read.
\<close>

definition alpha_installed :: extension where
  "alpha_installed =
     \<lparr>packageJSON = alpha_pkg\<lparr>version := Some ''1.1.0''\<rparr>, extensionPath = ''/ext/acme.alpha''\<rparr>"

definition beta_installed :: extension where
  "beta_installed = \<lparr>packageJSON = beta_pkg, extensionPath = ''/ext/acme.beta''\<rparr>"

definition beta_installed_recently :: extension where
  "beta_installed_recently = \<lparr>packageJSON = beta_pkg, extensionPath = ''/ext/acme.beta-2''\<rparr>"

definition beta_installed_unreadable :: extension where
  "beta_installed_unreadable = \<lparr>packageJSON = beta_pkg, extensionPath = ''/ext/gone''\<rparr>"

section \<open>Properties of the version comparator\<close>

lemma js_lt_irrefl: "\<not> js_lt x x"
  by (cases x) auto

lemma js_lt_asym: "js_lt x y \<Longrightarrow> \<not> js_lt y x"
  by (cases x; cases y) auto

lemma compare_from_antisym: "compare_from p1 p2 i = - compare_from p2 p1 i"
proof (induction p1 p2 i rule: compare_from.induct)
  case (1 p1 p2 i)
  show ?case
  proof (cases "i < 3")
    case False
    then show ?thesis
      by (simp add: compare_from.simps [of p1 p2 i] compare_from.simps [of p2 p1 i])
  next
    case True
    let ?a = "or_zero (idx p1 i)" and ?b = "or_zero (idx p2 i)"
    consider (gt) "js_lt ?b ?a" | (lt) "\<not> js_lt ?b ?a" "js_lt ?a ?b"
      | (eq) "\<not> js_lt ?b ?a" "\<not> js_lt ?a ?b"
      by blast
    then show ?thesis
    proof cases
      case gt
      then have "\<not> js_lt ?a ?b" by (rule js_lt_asym)
      with gt True show ?thesis
        by (simp add: compare_from.simps [of p1 p2 i] compare_from.simps [of p2 p1 i] js_gt_def)
    next
      case lt
      with True show ?thesis
        by (simp add: compare_from.simps [of p1 p2 i] compare_from.simps [of p2 p1 i] js_gt_def)
    next
      case eq
      with True "1.IH" have "compare_from p1 p2 (i + 1) = - compare_from p2 p1 (i + 1)"
        by (simp add: js_gt_def)
      with eq True show ?thesis
        by (simp add: compare_from.simps [of p1 p2 i] compare_from.simps [of p2 p1 i] js_gt_def)
    qed
  qed
qed

lemma compare_from_refl: "compare_from p p i = 0"
proof (induction "3 - i" arbitrary: i)
  case 0
  then show ?case by (simp add: compare_from.simps [of p p i])
next
  case (Suc n)
  then have "compare_from p p (i + 1) = 0" by simp
  then show ?case
    by (simp add: compare_from.simps [of p p i] js_gt_def js_lt_irrefl)
qed

lemma compare_from_range: "compare_from p1 p2 i \<in> {- 1, 0, 1}"
proof (induction p1 p2 i rule: compare_from.induct)
  case (1 p1 p2 i)
  then show ?case
    by (simp add: compare_from.simps [of p1 p2 i])
qed

text \<open>The loop reads nothing but \<^verbatim>\<open>(p[j] || 0)\<close> for the indices below three.\<close>

lemma compare_from_cong:
  assumes "\<And>j. i \<le> j \<Longrightarrow> j < 3 \<Longrightarrow> or_zero (idx p1 j) = or_zero (idx q1 j)"
      and "\<And>j. i \<le> j \<Longrightarrow> j < 3 \<Longrightarrow> or_zero (idx p2 j) = or_zero (idx q2 j)"
  shows "compare_from p1 p2 i = compare_from q1 q2 i"
  using assms
proof (induction "3 - i" arbitrary: i)
  case 0
  then show ?case
    by (simp add: compare_from.simps [of p1 p2 i] compare_from.simps [of q1 q2 i])
next
  case (Suc n)
  have here: "or_zero (idx p1 i) = or_zero (idx q1 i)" "or_zero (idx p2 i) = or_zero (idx q2 i)"
    using Suc.hyps(2) Suc.prems(1) [of i] Suc.prems(2) [of i] by simp_all
  have "compare_from p1 p2 (i + 1) = compare_from q1 q2 (i + 1)"
    using Suc.hyps(2) Suc.prems by (intro Suc.hyps(1)) simp_all
  then show ?case
    by (simp add: compare_from.simps [of p1 p2 i] compare_from.simps [of q1 q2 i] here)
qed

lemma compareVersions_antisym: "compareVersions a b = - compareVersions b a"
  using compare_from_antisym [of "map Number (split_dot a)" "map Number (split_dot b)" 0]
  by (simp add: compareVersions_def Let_def disj_commute disj_left_commute)

lemma compareVersions_refl: "compareVersions a a = 0"
  by (simp add: compareVersions_def Let_def compare_from_refl)

subsection \<open>Pieces of a version string\<close>

lemma split_dot_not_Nil: "split_dot v \<noteq> []"
  by (induction v) (auto split: list.splits)

lemma split_dot_single: "split_dot v = [s] \<Longrightarrow> v = s"
proof (induction v arbitrary: s)
  case Nil
  then show ?case by simp
next
  case (Cons c cs)
  then show ?case
    by (cases "split_dot cs") (auto simp: split_dot_not_Nil split: if_splits)
qed

lemma split_dot_unknown: "split_dot ''unknown'' = [''unknown'']"
  by simp

lemma take3_single:
  assumes "take 3 (split_dot v) = take 3 (split_dot w)" and "split_dot v = [s]"
  shows "w = s"
proof -
  from assms have t: "take 3 (split_dot w) = [s]" by simp
  then have "length (take 3 (split_dot w)) = 1" by simp
  then have "length (split_dot w) = 1" by (simp add: min_def split: if_splits)
  with t have "split_dot w = [s]" by simp
  then show ?thesis by (rule split_dot_single)
qed

text \<open>The first three pieces decide whether a string is empty or \<^verbatim>\<open>unknown\<close>.\<close>

lemma take3_guard:
  assumes "take 3 (split_dot v) = take 3 (split_dot w)"
  shows "(v = [] \<longleftrightarrow> w = []) \<and> (v = ''unknown'' \<longleftrightarrow> w = ''unknown'')"
proof -
  have a: "v = [] \<Longrightarrow> w = []" using take3_single [OF assms, of "[]"] by simp
  have b: "w = [] \<Longrightarrow> v = []" using take3_single [OF assms [symmetric], of "[]"] by simp
  have c: "v = ''unknown'' \<Longrightarrow> w = ''unknown''"
    using take3_single [OF assms, of "''unknown''"] split_dot_unknown by simp
  have d: "w = ''unknown'' \<Longrightarrow> v = ''unknown''"
    using take3_single [OF assms [symmetric], of "''unknown''"] split_dot_unknown by simp
  from a b c d show ?thesis by blast
qed

lemma idx_map: "idx (map f xs) i = map_option f (idx xs i)"
  by (simp add: idx_def)

lemma idx_take: "i < n \<Longrightarrow> idx (take n xs) i = idx xs i"
  by (simp add: idx_def)

lemma idx_take3_eq:
  assumes "take 3 xs = take 3 ys" and "i < 3"
  shows "idx xs i = idx ys i"
  using idx_take [of i 3 xs] idx_take [of i 3 ys] assms by simp

lemma compareVersions_cong:
  assumes "v1 = [] \<longleftrightarrow> w1 = []" "v1 = ''unknown'' \<longleftrightarrow> w1 = ''unknown''"
      and "v2 = [] \<longleftrightarrow> w2 = []" "v2 = ''unknown'' \<longleftrightarrow> w2 = ''unknown''"
      and "\<And>j. j < 3 \<Longrightarrow> or_zero (idx (map Number (split_dot v1)) j)
                          = or_zero (idx (map Number (split_dot w1)) j)"
      and "\<And>j. j < 3 \<Longrightarrow> or_zero (idx (map Number (split_dot v2)) j)
                          = or_zero (idx (map Number (split_dot w2)) j)"
  shows "compareVersions v1 v2 = compareVersions w1 w2"
proof -
  have "compare_from (map Number (split_dot v1)) (map Number (split_dot v2)) 0
      = compare_from (map Number (split_dot w1)) (map Number (split_dot w2)) 0"
    by (rule compare_from_cong) (simp_all add: assms(5,6))
  with assms(1-4) show ?thesis
    unfolding compareVersions_def Let_def by presburger
qed

lemma compareVersions_take3:
  assumes "take 3 (split_dot v1) = take 3 (split_dot w1)"
      and "take 3 (split_dot v2) = take 3 (split_dot w2)"
  shows "compareVersions v1 v2 = compareVersions w1 w2"
proof (rule compareVersions_cong)
  show "v1 = [] \<longleftrightarrow> w1 = []" "v1 = ''unknown'' \<longleftrightarrow> w1 = ''unknown''"
    using take3_guard [OF assms(1)] by simp_all
  show "v2 = [] \<longleftrightarrow> w2 = []" "v2 = ''unknown'' \<longleftrightarrow> w2 = ''unknown''"
    using take3_guard [OF assms(2)] by simp_all
  fix j :: nat assume "j < 3"
  then show "or_zero (idx (map Number (split_dot v1)) j) = or_zero (idx (map Number (split_dot w1)) j)"
    "or_zero (idx (map Number (split_dot v2)) j) = or_zero (idx (map Number (split_dot w2)) j)"
    using idx_take3_eq [OF assms(1)] idx_take3_eq [OF assms(2)] by (simp_all add: idx_map)
qed

lemma Number_zero: "Number ''0'' = Fin 0"
  by code_simp

lemma Number_empty: "Number [] = Fin 0"
  by code_simp

lemma or_zero_replace:
  assumes "or_zero (Some (Number c)) = or_zero (Some (Number d))"
  shows "or_zero (idx (map Number (xs @ c # ys)) j) = or_zero (idx (map Number (xs @ d # ys)) j)"
  using assms by (auto simp: idx_def nth_append nth_Cons split: nat.splits)

lemma or_zero_pad:
  "or_zero (idx (map Number (xs @ [''0''])) j) = or_zero (idx (map Number xs) j)"
  by (auto simp: idx_def nth_append Number_zero)

lemma split_dot_long:
  assumes "split_dot v = xs @ ys" "xs \<noteq> []" "ys \<noteq> []"
  shows "v \<noteq> [] \<and> v \<noteq> ''unknown''"
proof -
  have "length (split_dot v) \<ge> 2" using assms by (cases xs; cases ys) simp_all
  then show ?thesis by auto
qed

lemma compareVersions_pad_left:
  assumes "split_dot v' = split_dot v @ [''0'']" "v \<noteq> []" "v \<noteq> ''unknown''"
  shows "compareVersions v' u = compareVersions v u"
proof (rule compareVersions_cong)
  from split_dot_long [OF assms(1) split_dot_not_Nil] assms(2,3)
  show "v' = [] \<longleftrightarrow> v = []" "v' = ''unknown'' \<longleftrightarrow> v = ''unknown''" by simp_all
  show "\<And>j. or_zero (idx (map Number (split_dot v')) j) = or_zero (idx (map Number (split_dot v)) j)"
    by (simp only: assms(1) or_zero_pad)
qed simp_all

lemma compareVersions_zero_piece:
  assumes "split_dot v = xs @ c # ys" "split_dot v' = xs @ ''0'' # ys"
      and "Number c = NaN \<or> c = []" "v \<noteq> []" "v \<noteq> ''unknown''"
  shows "compareVersions v u = compareVersions v' u"
proof (rule compareVersions_cong)
  have "v' \<noteq> []" using assms(2) by (auto simp: Cons_eq_append_conv)
  moreover have "v' \<noteq> ''unknown''" using assms(2) by (auto simp: Cons_eq_append_conv)
  ultimately show "v = [] \<longleftrightarrow> v' = []" "v = ''unknown'' \<longleftrightarrow> v' = ''unknown''"
    using assms(4,5) by simp_all
  have "or_zero (Some (Number c)) = or_zero (Some (Number ''0''))"
    using assms(3) by (auto simp: Number_zero Number_empty)
  then show "\<And>j. or_zero (idx (map Number (split_dot v)) j)
                 = or_zero (idx (map Number (split_dot v')) j)"
    unfolding assms(1,2) by (rule or_zero_replace)
qed simp_all

subsection \<open>The comparator as a lexicographic comparison\<close>

lemma cmp_num_step:
  "(if js_gt a b then 1 else if js_lt a b then - 1 else (r::int))
     = (if cmp_num a b \<noteq> 0 then cmp_num a b else r)"
  using js_lt_asym [of a b] by (auto simp: cmp_num_def js_gt_def)

lemma compare_from_step:
  assumes "i < 3" "j = i + 1"
  shows "compare_from p1 p2 i =
           (if cmp_num (or_zero (idx p1 i)) (or_zero (idx p2 i)) \<noteq> 0
            then cmp_num (or_zero (idx p1 i)) (or_zero (idx p2 i))
            else compare_from p1 p2 j)"
  using assms by (subst compare_from.simps) (simp only: if_True cmp_num_step)

lemma compare_from_end: "compare_from p1 p2 3 = 0"
  by (subst compare_from.simps) simp

lemma compare_from_lex:
  "compare_from p1 p2 0 =
     lex_compare [or_zero (idx p1 0), or_zero (idx p1 1), or_zero (idx p1 2)]
                 [or_zero (idx p2 0), or_zero (idx p2 1), or_zero (idx p2 2)]"
proof -
  have i0: "(0::nat) < 3" "(1::nat) = 0 + 1" by simp_all
  have i1: "(1::nat) < 3" "(2::nat) = 1 + 1" by simp_all
  have i2: "(2::nat) < 3" "(3::nat) = 2 + 1" by simp_all
  note s0 = compare_from_step [OF i0, of p1 p2]
  note s1 = compare_from_step [OF i1, of p1 p2]
  note s2 = compare_from_step [OF i2, of p1 p2]
  show ?thesis
    by (simp only: s0 s1 s2 compare_from_end lex_compare.simps)
qed

lemma piece_value_or_zero: "piece_value v i = or_zero (idx (map Number (split_dot v)) i)"
proof (cases "idx (split_dot v) i")
  case None
  then show ?thesis by (simp add: piece_value_def idx_map)
next
  case (Some s)
  then show ?thesis
    by (cases "Number s") (simp_all add: piece_value_def idx_map)
qed

lemma compareVersions_lex:
  assumes "u \<noteq> []" "v \<noteq> []" "u \<noteq> ''unknown''" "v \<noteq> ''unknown''"
  shows "compareVersions u v = lex_compare (version_key u) (version_key v)"
  using assms
  by (simp add: compareVersions_def Let_def compare_from_lex version_key_def piece_value_or_zero)

text \<open>
  Claim C5 says that a non-numeric or malformed component coerces to zero. That fails for
  the components that are no plain decimal numbers and that \<^verbatim>\<open>Number\<close> reads all the
  same: the signed \<^verbatim>\<open>-1\<close>, the hexadecimal \<^verbatim>\<open>0x10\<close> and the exponent form
  \<^verbatim>\<open>1e2\<close> count with their values \<open>-1\<close>, \<open>16\<close> and \<open>100\<close>, not as zero, so that
  \<^verbatim>\<open>1.-1.0\<close> is older and \<^verbatim>\<open>1.0x10.0\<close> newer than \<^verbatim>\<open>1.0.0\<close>.
\<close>

theorem malformed_piece_compared_by_value:
  "\<not> decimal_piece ''-1'' \<and> compareVersions ''1.-1.0'' ''1.0.0'' = - 1
   \<and> \<not> decimal_piece ''0x10'' \<and> compareVersions ''1.0x10.0'' ''1.0.0'' = 1
   \<and> \<not> decimal_piece ''1e2'' \<and> compareVersions ''1.1e2.0'' ''1.99.0'' = 1
   \<and> compareVersions ''1.0.0'' ''1.0.0'' = 0"
  by code_simp

text \<open>
  Claim C5, amended. For all inputs of the version comparator: when either input is empty
  or the literal string \<^verbatim>\<open>unknown\<close> the result is \<open>0\<close>. Otherwise the result is the
  lexicographic comparison of the values of the first three dot-separated pieces of the
  two inputs, \<open>-1\<close> when the first input is smaller, \<open>1\<close> when it is greater, \<open>0\<close>
  when the three values agree; the value of a piece is zero when the piece is missing, zero
  when \<^verbatim>\<open>Number\<close> cannot read it (it yields NaN), and the number that \<^verbatim>\<open>Number\<close>
  reads otherwise, also when the piece is no plain decimal number (a sign, a hexadecimal,
  octal or binary literal, an exponent). Hence the result depends on the first three
  pieces only; appending \<^verbatim>\<open>.0\<close> to either input changes nothing, and
  \<^verbatim>\<open>compare("1.0", "1.0.0") = 0\<close>; an input with a piece that \<^verbatim>\<open>Number\<close> cannot
  read, or with an empty piece, compares like the one with \<^verbatim>\<open>0\<close> in that place; and no
  error is raised: the result is always one of \<open>-1\<close>, \<open>0\<close>, \<open>1\<close>.
\<close>

theorem compareVersions_contract:
  "(a = [] \<or> b = [] \<or> a = ''unknown'' \<or> b = ''unknown'' \<longrightarrow> compareVersions a b = 0)
   \<and> (u \<noteq> [] \<and> v \<noteq> [] \<and> u \<noteq> ''unknown'' \<and> v \<noteq> ''unknown''
        \<longrightarrow> compareVersions u v = lex_compare (version_key u) (version_key v))
   \<and> (take 3 (split_dot p) = take 3 (split_dot p') \<and> take 3 (split_dot q) = take 3 (split_dot q')
        \<longrightarrow> compareVersions p q = compareVersions p' q')
   \<and> (split_dot s' = split_dot s @ [''0''] \<and> s \<noteq> [] \<and> s \<noteq> ''unknown''
        \<longrightarrow> compareVersions s' t = compareVersions s t
          \<and> compareVersions t s' = compareVersions t s)
   \<and> compareVersions ''1.0'' ''1.0.0'' = 0
   \<and> (split_dot m = xs @ c # ys \<and> split_dot m' = xs @ ''0'' # ys
        \<and> (Number c = NaN \<or> c = []) \<and> m \<noteq> [] \<and> m \<noteq> ''unknown''
        \<longrightarrow> compareVersions m n = compareVersions m' n
          \<and> compareVersions n m = compareVersions n m')
   \<and> compareVersions x y \<in> {- 1, 0, 1}"
proof (intro conjI impI)
  assume "a = [] \<or> b = [] \<or> a = ''unknown'' \<or> b = ''unknown''"
  then show "compareVersions a b = 0"
    unfolding compareVersions_def by presburger
next
  assume "u \<noteq> [] \<and> v \<noteq> [] \<and> u \<noteq> ''unknown'' \<and> v \<noteq> ''unknown''"
  then show "compareVersions u v = lex_compare (version_key u) (version_key v)"
    using compareVersions_lex by blast
next
  assume "take 3 (split_dot p) = take 3 (split_dot p') \<and> take 3 (split_dot q) = take 3 (split_dot q')"
  then show "compareVersions p q = compareVersions p' q'"
    using compareVersions_take3 by blast
next
  assume h: "split_dot s' = split_dot s @ [''0''] \<and> s \<noteq> [] \<and> s \<noteq> ''unknown''"
  then show "compareVersions s' t = compareVersions s t"
    using compareVersions_pad_left by blast
  from h have "compareVersions s' t = compareVersions s t"
    using compareVersions_pad_left by blast
  then show "compareVersions t s' = compareVersions t s"
    using compareVersions_antisym [of t s'] compareVersions_antisym [of t s] by simp
next
  show "compareVersions ''1.0'' ''1.0.0'' = 0"
    by code_simp
next
  assume h: "split_dot m = xs @ c # ys \<and> split_dot m' = xs @ ''0'' # ys
        \<and> (Number c = NaN \<or> c = []) \<and> m \<noteq> [] \<and> m \<noteq> ''unknown''"
  then show "compareVersions m n = compareVersions m' n"
    using compareVersions_zero_piece by blast
  from h have "compareVersions m n = compareVersions m' n"
    using compareVersions_zero_piece by blast
  then show "compareVersions n m = compareVersions n m'"
    using compareVersions_antisym [of n m] compareVersions_antisym [of n m'] by simp
next
  show "compareVersions x y \<in> {- 1, 0, 1}"
    unfolding compareVersions_def Let_def using compare_from_range by simp
qed

theorem compareVersions_contract_witness:
  "compareVersions ''unknown'' ''1.0.0'' = 0
   \<and> compareVersions [] ''1.0.0'' = 0
   \<and> compareVersions ''1.0'' ''1.0.1'' = - 1
   \<and> compareVersions ''2.0.0'' ''1.9.9'' = 1
   \<and> compareVersions ''1.2.3'' ''1.2.4'' = - 1
   \<and> compareVersions ''1.-1.0'' ''1.0.0'' = - 1
   \<and> take 3 (split_dot ''1.2.3.9'') = take 3 (split_dot ''1.2.3.1'')
   \<and> compareVersions ''1.2.3.9'' ''1.2.3'' = compareVersions ''1.2.3.1'' ''1.2.3''
   \<and> split_dot ''2.1.0'' = split_dot ''2.1'' @ [''0'']
   \<and> compareVersions ''2.1.0'' ''2.0.5'' = compareVersions ''2.1'' ''2.0.5''
   \<and> split_dot ''1.2.x'' = [''1'', ''2''] @ ''x'' # [] \<and> Number ''x'' = NaN
   \<and> compareVersions ''1.2.x'' ''1.2.0'' = compareVersions ''1.2.0'' ''1.2.0''
   \<and> split_dot ''1..3'' = [''1''] @ [] # [''3'']
   \<and> compareVersions ''1..3'' ''1.0.3'' = compareVersions ''1.0.3'' ''1.0.3''"
proof -
  have h1: "take 3 (split_dot ''1.2.3.9'') = take 3 (split_dot ''1.2.3.1'')
            \<and> take 3 (split_dot ''1.2.3'') = take 3 (split_dot ''1.2.3'')"
    by simp
  have h2: "split_dot ''2.1.0'' = split_dot ''2.1'' @ [''0''] \<and> ''2.1'' \<noteq> [] \<and> ''2.1'' \<noteq> ''unknown''"
    by simp
  have n: "Number ''x'' = NaN" by code_simp
  have h3: "split_dot ''1.2.x'' = [''1'', ''2''] @ ''x'' # []
            \<and> split_dot ''1.2.0'' = [''1'', ''2''] @ ''0'' # []
            \<and> (Number ''x'' = NaN \<or> ''x'' = []) \<and> ''1.2.x'' \<noteq> [] \<and> ''1.2.x'' \<noteq> ''unknown''"
    using n by simp
  have h4: "split_dot ''1..3'' = [''1''] @ [] # [''3'']
            \<and> split_dot ''1.0.3'' = [''1''] @ ''0'' # [''3'']
            \<and> (Number [] = NaN \<or> ([]::string) = []) \<and> ''1..3'' \<noteq> [] \<and> ''1..3'' \<noteq> ''unknown''"
    by simp
  have k1: "''1.0'' \<noteq> [] \<and> ''1.0.1'' \<noteq> [] \<and> ''1.0'' \<noteq> ''unknown'' \<and> ''1.0.1'' \<noteq> ''unknown''"
    by simp
  have k2: "''2.0.0'' \<noteq> [] \<and> ''1.9.9'' \<noteq> [] \<and> ''2.0.0'' \<noteq> ''unknown'' \<and> ''1.9.9'' \<noteq> ''unknown''"
    by simp
  have k3: "''1.2.3'' \<noteq> [] \<and> ''1.2.4'' \<noteq> [] \<and> ''1.2.3'' \<noteq> ''unknown'' \<and> ''1.2.4'' \<noteq> ''unknown''"
    by simp
  have k4: "''1.-1.0'' \<noteq> [] \<and> ''1.0.0'' \<noteq> [] \<and> ''1.-1.0'' \<noteq> ''unknown''
            \<and> ''1.0.0'' \<noteq> ''unknown''"
    by simp
  have l1: "lex_compare (version_key ''1.0'') (version_key ''1.0.1'') = - 1" by code_simp
  have l2: "lex_compare (version_key ''2.0.0'') (version_key ''1.9.9'') = 1" by code_simp
  have l3: "lex_compare (version_key ''1.2.3'') (version_key ''1.2.4'') = - 1" by code_simp
  have l4: "lex_compare (version_key ''1.-1.0'') (version_key ''1.0.0'') = - 1" by code_simp
  note c = compareVersions_contract [where a = "''unknown''" and b = "''1.0.0''"
      and u = "''1.0''" and v = "''1.0.1''"
      and p = "''1.2.3.9''" and p' = "''1.2.3.1''" and q = "''1.2.3''" and q' = "''1.2.3''"
      and s = "''2.1''" and s' = "''2.1.0''" and t = "''2.0.5''"
      and m = "''1.2.x''" and m' = "''1.2.0''" and xs = "[''1'', ''2'']" and c = "''x''"
      and ys = "[]" and n = "''1.2.0''"]
  note d = compareVersions_contract [where a = "[]" and b = "''1.0.0''"
      and u = "''2.0.0''" and v = "''1.9.9''"
      and m = "''1..3''" and m' = "''1.0.3''" and xs = "[''1'']" and c = "[]"
      and ys = "[''3'']" and n = "''1.0.3''"]
  note e = compareVersions_contract [where u = "''1.2.3''" and v = "''1.2.4''"]
  note f = compareVersions_contract [where u = "''1.-1.0''" and v = "''1.0.0''"]
  have r1: "compareVersions ''unknown'' ''1.0.0'' = 0"
    using conjunct1 [OF c] by simp
  have r2: "compareVersions [] ''1.0.0'' = 0"
    using conjunct1 [OF d] by simp
  have v1: "compareVersions ''1.0'' ''1.0.1'' = - 1"
    using mp [OF conjunct1 [OF conjunct2 [OF c]] k1] l1 by simp
  have v2: "compareVersions ''2.0.0'' ''1.9.9'' = 1"
    using mp [OF conjunct1 [OF conjunct2 [OF d]] k2] l2 by simp
  have v3: "compareVersions ''1.2.3'' ''1.2.4'' = - 1"
    using mp [OF conjunct1 [OF conjunct2 [OF e]] k3] l3 by simp
  have v4: "compareVersions ''1.-1.0'' ''1.0.0'' = - 1"
    using mp [OF conjunct1 [OF conjunct2 [OF f]] k4] l4 by simp
  have r3: "compareVersions ''1.2.3.9'' ''1.2.3'' = compareVersions ''1.2.3.1'' ''1.2.3''"
    using conjunct1 [OF conjunct2 [OF conjunct2 [OF c]]] h1 by (rule mp)
  have r4: "compareVersions ''2.1.0'' ''2.0.5'' = compareVersions ''2.1'' ''2.0.5''"
    using mp [OF conjunct1 [OF conjunct2 [OF conjunct2 [OF conjunct2 [OF c]]]] h2]
    by (rule conjunct1)
  have r5: "compareVersions ''1.2.x'' ''1.2.0'' = compareVersions ''1.2.0'' ''1.2.0''"
    using mp [OF conjunct1 [OF conjunct2 [OF conjunct2 [OF conjunct2 [OF conjunct2
      [OF conjunct2 [OF c]]]]]] h3]
    by (rule conjunct1)
  have r6: "compareVersions ''1..3'' ''1.0.3'' = compareVersions ''1.0.3'' ''1.0.3''"
    using mp [OF conjunct1 [OF conjunct2 [OF conjunct2 [OF conjunct2 [OF conjunct2
      [OF conjunct2 [OF d]]]]]] h4]
    by (rule conjunct1)
  from h1 have g1: "take 3 (split_dot ''1.2.3.9'') = take 3 (split_dot ''1.2.3.1'')"
    by (rule conjunct1)
  from h2 have g2: "split_dot ''2.1.0'' = split_dot ''2.1'' @ [''0'']"
    by (rule conjunct1)
  from h3 have g3: "split_dot ''1.2.x'' = [''1'', ''2''] @ ''x'' # []"
    by (rule conjunct1)
  from h4 have g4: "split_dot ''1..3'' = [''1''] @ [] # [''3'']"
    by (rule conjunct1)
  show ?thesis
    by (intro conjI r1 r2 v1 v2 v3 v4 g1 r3 g2 r4 g3 n r5 g4 r6)
qed

text \<open>
  Claim C9. For all well-formed three-component version strings \<open>a\<close> and \<open>b\<close>,
  \<open>compare(a, b) = - compare(b, a)\<close>; and for every string \<open>c\<close>, \<open>compare(c, c) = 0\<close>.
\<close>

theorem compareVersions_antisymmetric_reflexive:
  "(well_formed a \<and> well_formed b \<longrightarrow> compareVersions a b = - compareVersions b a)
   \<and> compareVersions c c = 0"
  using compareVersions_antisym compareVersions_refl by blast

theorem compareVersions_antisymmetric_reflexive_witness:
  "well_formed ''1.2.3'' \<and> well_formed ''1.2.4''
   \<and> compareVersions ''1.2.3'' ''1.2.4'' = - 1
   \<and> compareVersions ''1.2.4'' ''1.2.3'' = 1
   \<and> compareVersions ''1.2.3'' ''1.2.3'' = 0"
proof -
  have wf: "well_formed ''1.2.3'' \<and> well_formed ''1.2.4''" by code_simp
  have v: "compareVersions ''1.2.3'' ''1.2.4'' = - 1" by code_simp
  from compareVersions_antisymmetric_reflexive [of "''1.2.3''" "''1.2.4''" "''1.2.3''"] wf v
  show ?thesis by simp
qed

section \<open>Properties of the reconciliation scan\<close>

text \<open>
  Claim C1. For every project with an installed entity present, if
  \<open>compare(descriptor.version, installedVersion) > 0\<close> the classifier returns
  \<^verbatim>\<open>update\<close>, whatever the existence and staleness of the artifact and whatever the
  time stamps of the world; and so does the entry that the scan produces for the project.
\<close>

theorem version_bump_is_update:
  assumes "compareVersions (version_arg (version pkg))
             (version_arg (version (packageJSON inst))) > 0"
  shows "classify sys w pkg (Some inst) vsixPath chk = Some Update
       \<and> (readManifest sys w file = Some pkg \<and> truthy_str (publisher pkg)
            \<and> find_installed exts pkg = Some inst
          \<longrightarrow> map_option entry_status (scan_file sys w exts file) = Some Update)"
proof -
  have c: "\<And>vp ck. classify sys w pkg (Some inst) vp ck = Some Update"
    using assms by (simp add: classify_def)
  show ?thesis
    by (simp add: c scan_file_def Let_def)
qed

theorem version_bump_is_update_witness:
  "compareVersions (version_arg (version alpha_pkg))
     (version_arg (version (packageJSON alpha_installed))) > 0
   \<and> classify example_sys example_world alpha_pkg (Some alpha_installed)
         ''/ws/alpha/alpha-1.2.0.vsix''
         \<lparr>isStale = True, vsixExists = False, vsixModifiedTime = ''N/A''\<rparr> = Some Update
   \<and> map_option entry_status
         (scan_file example_sys example_world [alpha_installed, beta_installed]
            ''/ws/alpha/package.json'') = Some Update"
proof -
  have h: "compareVersions (version_arg (version alpha_pkg))
             (version_arg (version (packageJSON alpha_installed))) > 0"
    by code_simp
  have m: "readManifest example_sys example_world ''/ws/alpha/package.json'' = Some alpha_pkg"
    by (simp add: example_sys_def example_manifests_def)
  have p: "truthy_str (publisher alpha_pkg)"
    by (simp add: alpha_pkg_def)
  have f: "find_installed [alpha_installed, beta_installed] alpha_pkg = Some alpha_installed"
    by (simp add: find_installed_def alpha_installed_def alpha_pkg_def)
  from version_bump_is_update [OF h, of example_sys example_world
      "''/ws/alpha/alpha-1.2.0.vsix''"
      "\<lparr>isStale = True, vsixExists = False, vsixModifiedTime = ''N/A''\<rparr>"
      "''/ws/alpha/package.json''" "[alpha_installed, beta_installed]"] h m p f
  show ?thesis by blast
qed

text \<open>
  Claim C3. In the reconciliation scan: when the artifact does not exist the project is
  stale, for any state of the source; when the artifact exists and the source subtree can
  be inspected, it is stale if and only if the source's modification time is strictly
  greater than the artifact's, so that equal time stamps are not stale; and when the
  source subtree cannot be inspected the artifact is not stale.
\<close>

theorem artifact_staleness:
  "(stat sys w vsixPath = None \<longrightarrow> isStale (check_artifact sys w projectPath vsixPath))
   \<and> (stat sys w vsixPath = Some mtime \<and> stat sys w (src_path sys projectPath) = Some srcMtime
        \<longrightarrow> (isStale (check_artifact sys w projectPath vsixPath) \<longleftrightarrow> srcMtime > mtime))
   \<and> (stat sys w vsixPath = Some mtime \<and> stat sys w (src_path sys projectPath) = Some mtime
        \<longrightarrow> \<not> isStale (check_artifact sys w projectPath vsixPath))
   \<and> (stat sys w vsixPath = Some mtime \<and> stat sys w (src_path sys projectPath) = None
        \<longrightarrow> \<not> isStale (check_artifact sys w projectPath vsixPath))"
  by (simp add: check_artifact_def)

theorem artifact_staleness_witness:
  "stat example_sys example_world ''/ws/gamma/gamma-0.3.0.vsix'' = None
   \<and> isStale (check_artifact example_sys example_world ''/ws/gamma'' ''/ws/gamma/gamma-0.3.0.vsix'')
   \<and> stat example_sys example_world ''/ws/alpha/alpha-1.2.0.vsix'' = Some 20000
   \<and> stat example_sys example_world (src_path example_sys ''/ws/alpha'') = Some 10000
   \<and> \<not> isStale (check_artifact example_sys example_world ''/ws/alpha'' ''/ws/alpha/alpha-1.2.0.vsix'')
   \<and> stat example_sys equal_world ''/ws/beta/beta-1.0.0.vsix'' = Some 20000
   \<and> stat example_sys equal_world (src_path example_sys ''/ws/beta'') = Some 20000
   \<and> \<not> isStale (check_artifact example_sys equal_world ''/ws/beta'' ''/ws/beta/beta-1.0.0.vsix'')
   \<and> stat example_sys no_src_world ''/ws/beta/beta-1.0.0.vsix'' = Some 20000
   \<and> stat example_sys no_src_world (src_path example_sys ''/ws/beta'') = None
   \<and> \<not> isStale (check_artifact example_sys no_src_world ''/ws/beta'' ''/ws/beta/beta-1.0.0.vsix'')"
proof -
  have g: "stat example_sys example_world ''/ws/gamma/gamma-0.3.0.vsix'' = None"
    by code_simp
  have a: "stat example_sys example_world ''/ws/alpha/alpha-1.2.0.vsix'' = Some 20000
           \<and> stat example_sys example_world (src_path example_sys ''/ws/alpha'') = Some 10000"
    by code_simp
  have e: "stat example_sys equal_world ''/ws/beta/beta-1.0.0.vsix'' = Some 20000
           \<and> stat example_sys equal_world (src_path example_sys ''/ws/beta'') = Some 20000"
    by code_simp
  have n: "stat example_sys no_src_world ''/ws/beta/beta-1.0.0.vsix'' = Some 20000
           \<and> stat example_sys no_src_world (src_path example_sys ''/ws/beta'') = None"
    by code_simp
  note t1 = artifact_staleness [of example_sys example_world "''/ws/gamma/gamma-0.3.0.vsix''"
      "''/ws/gamma''"]
  note t2 = artifact_staleness [of example_sys example_world "''/ws/alpha/alpha-1.2.0.vsix''"
      "''/ws/alpha''" 20000 10000]
  note t3 = artifact_staleness [of example_sys equal_world "''/ws/beta/beta-1.0.0.vsix''"
      "''/ws/beta''" 20000 20000]
  note t4 = artifact_staleness [of example_sys no_src_world "''/ws/beta/beta-1.0.0.vsix''"
      "''/ws/beta''" 20000]
  have s1: "isStale (check_artifact example_sys example_world ''/ws/gamma'' ''/ws/gamma/gamma-0.3.0.vsix'')"
    using t1 g by blast
  have s2: "\<not> isStale (check_artifact example_sys example_world ''/ws/alpha'' ''/ws/alpha/alpha-1.2.0.vsix'')"
    using t2 a by simp
  have s3: "\<not> isStale (check_artifact example_sys equal_world ''/ws/beta'' ''/ws/beta/beta-1.0.0.vsix'')"
    using t3 e by blast
  have s4: "\<not> isStale (check_artifact example_sys no_src_world ''/ws/beta'' ''/ws/beta/beta-1.0.0.vsix'')"
    using t4 n by blast
  from g a e n s1 s2 s3 s4 show ?thesis by blast
qed

text \<open>
  Claim C4. For every project where an installed entity is present, the version comparison
  is not greater than \<open>0\<close>, the artifact is not stale and the artifact exists: the
  classifier returns \<^verbatim>\<open>update\<close> if and only if the artifact's modification time exceeds
  the modification time of the installed manifest plus the fixed window of \<open>5000\<close>
  milliseconds, and \<^verbatim>\<open>installed\<close> otherwise; when the installed manifest cannot be
  inspected the result is \<^verbatim>\<open>installed\<close>; in each case a status is returned, no
  exception leaves the classification.
\<close>

theorem same_version_timestamp_rule:
  assumes "\<not> compareVersions (version_arg (version pkg))
               (version_arg (version (packageJSON inst))) > 0"
      and "chk = check_artifact sys w projectPath vsixPath"
      and "\<not> isStale chk" and "vsixExists chk"
  shows "\<exists>mtime. stat sys w vsixPath = Some mtime
       \<and> classify sys w pkg (Some inst) vsixPath chk =
           Some (case stat sys w (installed_manifest sys inst) of
                   None \<Rightarrow> Installed
                 | Some instMtime \<Rightarrow> if mtime > instMtime + 5000 then Update else Installed)"
proof -
  from assms(2,4) obtain mtime where m: "stat sys w vsixPath = Some mtime"
    by (cases "stat sys w vsixPath") (simp_all add: check_artifact_def)
  with assms(1,3,4) show ?thesis
    by (simp add: classify_def split: option.splits)
qed

theorem same_version_timestamp_rule_witness:
  "\<not> compareVersions (version_arg (version beta_pkg))
        (version_arg (version (packageJSON beta_installed))) > 0
   \<and> \<not> isStale (check_artifact example_sys example_world ''/ws/beta'' ''/ws/beta/beta-1.0.0.vsix'')
   \<and> vsixExists (check_artifact example_sys example_world ''/ws/beta'' ''/ws/beta/beta-1.0.0.vsix'')
   \<and> classify example_sys example_world beta_pkg (Some beta_installed)
         ''/ws/beta/beta-1.0.0.vsix''
         (check_artifact example_sys example_world ''/ws/beta'' ''/ws/beta/beta-1.0.0.vsix'')
       = Some Update
   \<and> classify example_sys example_world beta_pkg (Some beta_installed_recently)
         ''/ws/beta/beta-1.0.0.vsix''
         (check_artifact example_sys example_world ''/ws/beta'' ''/ws/beta/beta-1.0.0.vsix'')
       = Some Installed
   \<and> classify example_sys example_world beta_pkg (Some beta_installed_unreadable)
         ''/ws/beta/beta-1.0.0.vsix''
         (check_artifact example_sys example_world ''/ws/beta'' ''/ws/beta/beta-1.0.0.vsix'')
       = Some Installed"
proof -
  let ?vp = "''/ws/beta/beta-1.0.0.vsix''"
  let ?chk = "check_artifact example_sys example_world ''/ws/beta'' ?vp"
  have v: "\<not> compareVersions (version_arg (version beta_pkg))
               (version_arg (version (packageJSON beta_installed))) > 0"
    "\<not> compareVersions (version_arg (version beta_pkg))
               (version_arg (version (packageJSON beta_installed_recently))) > 0"
    "\<not> compareVersions (version_arg (version beta_pkg))
               (version_arg (version (packageJSON beta_installed_unreadable))) > 0"
    by code_simp+
  have s: "\<not> isStale ?chk" by code_simp
  have x: "vsixExists ?chk" by code_simp
  have st: "stat example_sys example_world ?vp = Some 20000" by code_simp
  have i1: "stat example_sys example_world (installed_manifest example_sys beta_installed) = Some 12000"
    by code_simp
  have i2: "stat example_sys example_world (installed_manifest example_sys beta_installed_recently)
              = Some 15000"
    by code_simp
  have i3: "stat example_sys example_world (installed_manifest example_sys beta_installed_unreadable)
              = None"
    by code_simp
  have r1: "classify example_sys example_world beta_pkg (Some beta_installed) ?vp ?chk = Some Update"
    using same_version_timestamp_rule [OF v(1) refl s x] st i1 by simp
  have r2: "classify example_sys example_world beta_pkg (Some beta_installed_recently) ?vp ?chk
              = Some Installed"
    using same_version_timestamp_rule [OF v(2) refl s x] st i2 by simp
  have r3: "classify example_sys example_world beta_pkg (Some beta_installed_unreadable) ?vp ?chk
              = Some Installed"
    using same_version_timestamp_rule [OF v(3) refl s x] st i3 by simp
  from v(1) s x r1 r2 r3 show ?thesis by blast
qed

text \<open>
  Claim C8. For every project with no installed entity, the classifier returns
  \<^verbatim>\<open>new\<close> when the artifact exists and \<^verbatim>\<open>stale\<close> when it does not; the time stamp
  of the source tree plays no part.
\<close>

theorem not_installed_new_or_stale:
  "classify sys w pkg None vsixPath (check_artifact sys w projectPath vsixPath) =
     Some (if stat sys w vsixPath = None then Stale else New)
   \<and> classify sys w pkg None vsixPath chk = Some (if vsixExists chk then New else Stale)"
  by (simp add: classify_def check_artifact_def split: option.splits)

theorem not_installed_new_or_stale_witness:
  "classify example_sys example_world alpha_pkg None ''/ws/alpha/alpha-1.2.0.vsix''
     (check_artifact example_sys example_world ''/ws/alpha'' ''/ws/alpha/alpha-1.2.0.vsix'') = Some New
   \<and> classify example_sys example_world gamma_pkg None ''/ws/gamma/gamma-0.3.0.vsix''
     (check_artifact example_sys example_world ''/ws/gamma'' ''/ws/gamma/gamma-0.3.0.vsix'') = Some Stale"
proof -
  have a: "stat example_sys example_world ''/ws/alpha/alpha-1.2.0.vsix'' \<noteq> None" by code_simp
  have g: "stat example_sys example_world ''/ws/gamma/gamma-0.3.0.vsix'' = None" by code_simp
  have r1: "classify example_sys example_world alpha_pkg None ''/ws/alpha/alpha-1.2.0.vsix''
     (check_artifact example_sys example_world ''/ws/alpha'' ''/ws/alpha/alpha-1.2.0.vsix'') = Some New"
    using conjunct1 [OF not_installed_new_or_stale [of example_sys example_world alpha_pkg
      "''/ws/alpha/alpha-1.2.0.vsix''" "''/ws/alpha''"]] a by simp
  have r2: "classify example_sys example_world gamma_pkg None ''/ws/gamma/gamma-0.3.0.vsix''
     (check_artifact example_sys example_world ''/ws/gamma'' ''/ws/gamma/gamma-0.3.0.vsix'') = Some Stale"
    using conjunct1 [OF not_installed_new_or_stale [of example_sys example_world gamma_pkg
      "''/ws/gamma/gamma-0.3.0.vsix''" "''/ws/gamma''"]] g by simp
  from r1 r2 show ?thesis by (rule conjI)
qed

section \<open>Properties of the suite build\<close>

lemma build_loop_append:
  "build_loop sys (xs @ ys) st = build_loop sys ys (build_loop sys xs st)"
  by (induction xs arbitrary: st) simp_all

lemma build_project_skip:
  "\<not> needsBuild sys (world st) p \<Longrightarrow>
     build_project sys p st = st\<lparr>successCount := successCount st + 1\<rparr>"
  by (simp add: build_project_def)

text \<open>Skipping leaves the world, the failures and the invocations as they are.\<close>

lemma build_loop_skip_all:
  "(\<And>q. q \<in> set xs \<Longrightarrow> \<not> needsBuild sys (world st) q) \<Longrightarrow>
     build_loop sys xs st = st\<lparr>successCount := successCount st + length xs\<rparr>"
proof (induction xs arbitrary: st)
  case Nil
  then show ?case by simp
next
  case (Cons x xs)
  have x: "build_project sys x st = st\<lparr>successCount := successCount st + 1\<rparr>"
    using Cons.prems by (simp add: build_project_skip)
  have "build_loop sys xs (st\<lparr>successCount := successCount st + 1\<rparr>)
        = st\<lparr>successCount := successCount st + 1\<rparr>\<lparr>successCount :=
              successCount (st\<lparr>successCount := successCount st + 1\<rparr>) + length xs\<rparr>"
    by (rule Cons.IH) (simp add: Cons.prems)
  then show ?case by (simp add: x)
qed

lemma build_project_ok:
  assumes "needsBuild sys (world st) p" "build_succeeds sys (world st) p"
  shows "successCount (build_project sys p st) = successCount st + 1"
    and "failedProjects (build_project sys p st) = failedProjects st"
  using assms
  by (auto simp: build_project_def build_succeeds_def Let_def split: prod.splits sum.splits)

lemma build_project_failed:
  assumes "needsBuild sys (world st) p" "\<not> build_succeeds sys (world st) p"
  shows "successCount (build_project sys p st) = successCount st"
    and "failedProjects (build_project sys p st) =
           failedProjects st @ [path_basename sys (project_path p)]"
  using assms
  by (auto simp: build_project_def build_succeeds_def Let_def split: prod.splits sum.splits)

lemma build_project_compiles_once:
  assumes "needsBuild sys (world st) p"
  shows "length (filter is_compile (calls (build_project sys p st))) =
           length (filter is_compile (calls st)) + 1"
  using assms
  by (auto simp: build_project_def Let_def split: prod.splits sum.splits)

lemma build_project_world:
  "world st = world st' \<Longrightarrow> world (build_project sys p st) = world (build_project sys p st')"
  by (auto simp: build_project_def Let_def split: prod.splits sum.splits)

lemma build_project_accounts:
  "successCount (build_project sys p st) + length (failedProjects (build_project sys p st))
     = successCount st + length (failedProjects st) + 1"
  by (auto simp: build_project_def Let_def split: prod.splits sum.splits)

lemma build_loop_accounts:
  "successCount (build_loop sys ps st) + length (failedProjects (build_loop sys ps st))
     = successCount st + length (failedProjects st) + length ps"
proof (induction ps arbitrary: st)
  case Nil
  then show ?case by simp
next
  case (Cons p ps)
  show ?case
    using Cons.IH [of "build_project sys p st"] build_project_accounts [of sys p st]
    by simp
qed

lemma length_nexgenProjects:
  "length (nexgenProjects sys w files) = length (filter (eligible sys w) files)"
proof -
  have "\<And>f. (collect_project sys w f \<noteq> None) = eligible sys w f"
    by (simp add: collect_project_def eligible_def split: option.splits)
  then show ?thesis
    by (induction files) (auto simp: nexgenProjects_def List.map_filter_def)
qed

text \<open>
  One project needs a build among projects that are up to date when the loop reaches
  them: the projects \<open>xs\<close> before it are examined in the starting world, the projects
  \<open>ys\<close> after it in the world that its build leaves.
\<close>

lemma one_build_among_skips:
  assumes xs: "\<forall>q\<in>set xs. \<not> needsBuild sys w q"
      and p: "needsBuild sys w p"
      and ys: "\<forall>q\<in>set ys. \<not> needsBuild sys (world (build_project sys p (build_start w))) q"
  shows "length (filter is_compile (calls (build_loop sys (xs @ p # ys) (build_start w)))) = 1"
    and "build_succeeds sys w p \<Longrightarrow>
           successCount (build_loop sys (xs @ p # ys) (build_start w)) = length xs + length ys + 1
         \<and> failedProjects (build_loop sys (xs @ p # ys) (build_start w)) = []"
    and "\<not> build_succeeds sys w p \<Longrightarrow>
           successCount (build_loop sys (xs @ p # ys) (build_start w)) = length xs + length ys
         \<and> failedProjects (build_loop sys (xs @ p # ys) (build_start w)) =
             [path_basename sys (project_path p)]"
proof -
  define s1 where "s1 = (build_start w)\<lparr>successCount := length xs\<rparr>"
  define s2 where "s2 = build_project sys p s1"
  have w1: "world s1 = w" "successCount s1 = length xs" "failedProjects s1 = []" "calls s1 = []"
    by (simp_all add: s1_def build_start_def)
  have l1: "build_loop sys xs (build_start w) = s1"
    using build_loop_skip_all [of xs sys "build_start w"] xs
    by (simp add: s1_def build_start_def)
  have "world s2 = world (build_project sys p (build_start w))"
    unfolding s2_def by (rule build_project_world) (simp add: w1 build_start_def)
  then have l2: "build_loop sys ys s2 = s2\<lparr>successCount := successCount s2 + length ys\<rparr>"
    using build_loop_skip_all [of ys sys s2] ys by simp
  have "build_loop sys (xs @ p # ys) (build_start w) = build_loop sys ys s2"
    by (simp add: build_loop_append l1 s2_def)
  with l2 have r: "build_loop sys (xs @ p # ys) (build_start w)
             = s2\<lparr>successCount := successCount s2 + length ys\<rparr>"
    by simp
  have n: "needsBuild sys (world s1) p" using p by (simp add: w1)
  show "length (filter is_compile (calls (build_loop sys (xs @ p # ys) (build_start w)))) = 1"
    using build_project_compiles_once [OF n] by (simp add: r s2_def w1)
  show "successCount (build_loop sys (xs @ p # ys) (build_start w)) = length xs + length ys + 1
      \<and> failedProjects (build_loop sys (xs @ p # ys) (build_start w)) = []"
    if "build_succeeds sys w p"
    using build_project_ok [OF n] that by (simp add: r s2_def w1)
  show "successCount (build_loop sys (xs @ p # ys) (build_start w)) = length xs + length ys
      \<and> failedProjects (build_loop sys (xs @ p # ys) (build_start w)) =
          [path_basename sys (project_path p)]"
    if "\<not> build_succeeds sys w p"
    using build_project_failed [OF n] that by (simp add: r s2_def w1)
qed

text \<open>
  What the loop guarantees. A failure of the build or of the packaging of one project is
  recorded under the name of its directory and the loop goes on with the next project: the
  run over \<open>xs @ p # ys\<close> is the run over \<open>ys\<close> from the state that \<open>p\<close> leaves.
  When two projects pass the check of the loop itself (\<open>needsBuild\<close> is false for them)
  and one does not, \<^verbatim>\<open>Publisher.runCompile\<close> is invoked once, the success count is
  three when that build succeeds, and two with that project's name as the only failure
  when it fails.
\<close>

lemma build_loop_isolates_failures:
  "build_loop sys (xs @ p # ys) st = build_loop sys ys (build_project sys p (build_loop sys xs st))
   \<and> (needsBuild sys (world st) p \<and> \<not> build_succeeds sys (world st) p
        \<longrightarrow> failedProjects (build_project sys p st) =
              failedProjects st @ [path_basename sys (project_path p)]
          \<and> successCount (build_project sys p st) = successCount st)
   \<and> (length xs + length ys = 2
        \<and> (\<forall>q\<in>set xs. \<not> needsBuild sys w q)
        \<and> needsBuild sys w p
        \<and> (\<forall>q\<in>set ys. \<not> needsBuild sys (world (build_project sys p (build_start w))) q)
        \<longrightarrow> length (filter is_compile (calls (build_loop sys (xs @ p # ys) (build_start w)))) = 1
          \<and> (build_succeeds sys w p
               \<longrightarrow> successCount (build_loop sys (xs @ p # ys) (build_start w)) = 3
                 \<and> failedProjects (build_loop sys (xs @ p # ys) (build_start w)) = [])
          \<and> (\<not> build_succeeds sys w p
               \<longrightarrow> successCount (build_loop sys (xs @ p # ys) (build_start w)) = 2
                 \<and> failedProjects (build_loop sys (xs @ p # ys) (build_start w)) =
                     [path_basename sys (project_path p)]))"
proof (intro conjI impI)
  show "build_loop sys (xs @ p # ys) st =
          build_loop sys ys (build_project sys p (build_loop sys xs st))"
    by (simp add: build_loop_append)
next
  assume "needsBuild sys (world st) p \<and> \<not> build_succeeds sys (world st) p"
  then show "failedProjects (build_project sys p st) =
               failedProjects st @ [path_basename sys (project_path p)]"
    and "successCount (build_project sys p st) = successCount st"
    using build_project_failed [of sys st p] by simp_all
next
  assume h: "length xs + length ys = 2
        \<and> (\<forall>q\<in>set xs. \<not> needsBuild sys w q)
        \<and> needsBuild sys w p
        \<and> (\<forall>q\<in>set ys. \<not> needsBuild sys (world (build_project sys p (build_start w))) q)"
  then have len: "length xs + length ys = 2"
    and xs: "\<forall>q\<in>set xs. \<not> needsBuild sys w q"
    and p: "needsBuild sys w p"
    and ys: "\<forall>q\<in>set ys. \<not> needsBuild sys (world (build_project sys p (build_start w))) q"
    by simp_all
  note o = one_build_among_skips [OF xs p ys]
  show "length (filter is_compile (calls (build_loop sys (xs @ p # ys) (build_start w)))) = 1"
    by (rule o(1))
  show "successCount (build_loop sys (xs @ p # ys) (build_start w)) = 3"
    if "build_succeeds sys w p"
    using o(2) [OF that] len by simp
  show "failedProjects (build_loop sys (xs @ p # ys) (build_start w)) = []"
    if "build_succeeds sys w p"
    using o(2) [OF that] by simp
  show "successCount (build_loop sys (xs @ p # ys) (build_start w)) = 2"
    if "\<not> build_succeeds sys w p"
    using o(3) [OF that] len by simp
  show "failedProjects (build_loop sys (xs @ p # ys) (build_start w)) =
          [path_basename sys (project_path p)]"
    if "\<not> build_succeeds sys w p"
    using o(3) [OF that] by simp
qed

text \<open>
  Claim C6. During a suite build a failure for one project is recorded against that
  project and the loop continues with the next one; given three eligible projects of which
  two are up to date and one is stale, exactly one build invocation occurs, the success
  count is three when that build succeeds, and when it fails the success count is two with
  exactly that project's name in the failed list.

  The code does otherwise when the two projects are up to date by the staleness test of
  the scan but not by the check of the loop. In \<open>two_current_world\<close> the scan finds
  alpha and beta not stale and gamma stale; the suite build invokes the compiler for all
  three, and with a compiler that fails it reports no success and three failed projects.
\<close>

theorem two_current_one_stale_three_builds:
  "\<not> isStale (check_artifact example_sys two_current_world ''/ws/alpha''
                ''/ws/alpha/alpha-1.2.0.vsix'')
   \<and> \<not> isStale (check_artifact example_sys two_current_world ''/ws/beta''
                ''/ws/beta/beta-1.0.0.vsix'')
   \<and> isStale (check_artifact example_sys two_current_world ''/ws/gamma''
                ''/ws/gamma/gamma-0.3.0.vsix'')
   \<and> runCompileAll example_sys two_current_world True example_files =
       Finished \<lparr>successCount = 3, failedProjects = [],
                 calls = [Compile ''/ws/alpha'', Package ''/ws/alpha'',
                          Compile ''/ws/beta'', Package ''/ws/beta'',
                          Compile ''/ws/gamma'', Package ''/ws/gamma''],
                 world = two_current_world\<rparr>
   \<and> runCompileAll failing_sys two_current_world True example_files =
       Finished \<lparr>successCount = 0, failedProjects = [''alpha'', ''beta'', ''gamma''],
                 calls = [Compile ''/ws/alpha'', Compile ''/ws/beta'', Compile ''/ws/gamma''],
                 world = two_current_world\<rparr>"
  by code_simp

text \<open>
  Claim C10. In every suite build run each eligible project (its manifest has a publisher
  and a compile script) is accounted for exactly once in the final report: the success
  count plus the length of the failed list is the number of eligible projects. A run that
  has a workspace folder and at least one eligible project does produce the report.
\<close>

theorem every_project_accounted_once:
  "(runCompileAll sys w workspaceFolders files = Finished r
      \<longrightarrow> successCount r + length (failedProjects r) = length (filter (eligible sys w) files))
   \<and> (workspaceFolders \<and> filter (eligible sys w) files \<noteq> []
      \<longrightarrow> (\<exists>r. runCompileAll sys w workspaceFolders files = Finished r))"
proof (intro conjI impI)
  assume "runCompileAll sys w workspaceFolders files = Finished r"
  then have "r = build_loop sys (nexgenProjects sys w files) (build_start w)"
    by (simp add: runCompileAll_def Let_def split: if_splits)
  then show "successCount r + length (failedProjects r) = length (filter (eligible sys w) files)"
    using build_loop_accounts [of sys "nexgenProjects sys w files" "build_start w"]
    by (simp add: length_nexgenProjects build_start_def)
next
  assume "workspaceFolders \<and> filter (eligible sys w) files \<noteq> []"
  then have "workspaceFolders" "length (nexgenProjects sys w files) \<noteq> 0"
    by (simp_all add: length_nexgenProjects)
  then show "\<exists>r. runCompileAll sys w workspaceFolders files = Finished r"
    by (simp add: runCompileAll_def Let_def)
qed

theorem every_project_accounted_once_witness:
  "runCompileAll failing_sys example_world True example_files =
     Finished \<lparr>successCount = 2, failedProjects = [''gamma''],
               calls = [Compile ''/ws/gamma''], world = example_world\<rparr>
   \<and> filter (eligible failing_sys example_world) example_files \<noteq> []
   \<and> (2::nat) + length [''gamma''] = length (filter (eligible failing_sys example_world) example_files)"
proof -
  have run: "runCompileAll failing_sys example_world True example_files =
     Finished \<lparr>successCount = 2, failedProjects = [''gamma''],
               calls = [Compile ''/ws/gamma''], world = example_world\<rparr>"
    by code_simp
  have ne: "filter (eligible failing_sys example_world) example_files \<noteq> []"
    by code_simp
  from every_project_accounted_once [of failing_sys example_world True example_files
      "\<lparr>successCount = 2, failedProjects = [''gamma''],
        calls = [Compile ''/ws/gamma''], world = example_world\<rparr>"] run ne
  show ?thesis by simp
qed

text \<open>What the check before a build computes, in one formula.\<close>

lemma needsBuild_iff:
  "needsBuild sys w p \<longleftrightarrow>
     \<not> (\<exists>mtime srcMtime.
          stat sys w (vsix_path sys (project_path p) (project_name p) (project_version p))
            = Some mtime
        \<and> stat sys w (src_path sys (project_path p)) = Some srcMtime
        \<and> srcMtime < mtime)"
  by (auto simp: needsBuild_def split: option.splits)

text \<open>
  Claim C2. For every project with a build script the orchestrator is to decide
  \<^verbatim>\<open>needsBuild\<close> by the staleness oracle of the scan: the project is skipped exactly
  when its artifact exists and is not stale, in particular when the source's time stamp
  equals the artifact's and when the source subtree cannot be inspected.

  The code does otherwise at both of these inputs. For project beta with artifact and
  source both modified at \<open>20000\<close>, and for project beta with an artifact and no
  \<^verbatim>\<open>src\<close> folder, the scan reports the artifact as not stale, while
  \<^verbatim>\<open>runCompileAll\<close> sets \<^verbatim>\<open>needsBuild\<close> and invokes compile and package.
\<close>

theorem needsBuild_differs_from_staleness:
  "\<not> isStale (check_artifact example_sys equal_world ''/ws/beta'' ''/ws/beta/beta-1.0.0.vsix'')
   \<and> needsBuild example_sys equal_world project_beta
   \<and> calls (build_loop example_sys [project_beta] (build_start equal_world))
       = [Compile ''/ws/beta'', Package ''/ws/beta'']
   \<and> \<not> isStale (check_artifact example_sys no_src_world ''/ws/beta'' ''/ws/beta/beta-1.0.0.vsix'')
   \<and> needsBuild example_sys no_src_world project_beta
   \<and> calls (build_loop example_sys [project_beta] (build_start no_src_world))
       = [Compile ''/ws/beta'', Package ''/ws/beta'']"
  by code_simp

section \<open>Properties of the suite installation\<close>

lemma install_loop_general:
  "attempts (install_loop sys ps st) = attempts st @ ps
   \<and> installedCount (install_loop sys ps st) =
       installedCount st + length (filter (\<lambda>r. \<not> isl r) (install_outcomes sys ps (install_world st)))
   \<and> errorMessages (install_loop sys ps st) =
       errorMessages st @
         map (\<lambda>(vsixPath, r). ''Failed to install '' @ path_basename sys vsixPath @ '': '' @ projl r)
           (filter (\<lambda>(vsixPath, r). isl r) (zip ps (install_outcomes sys ps (install_world st))))"
proof (induction ps arbitrary: st)
  case Nil
  then show ?case by simp
next
  case (Cons p ps)
  obtain r w1 where step: "installExtension sys p (install_world st) = (r, w1)"
    by (cases "installExtension sys p (install_world st)")
  show ?case
  proof (cases r)
    case (Inl msg)
    with step have one: "install_one sys p st =
        st\<lparr>errorMessages := errorMessages st @
               [''Failed to install '' @ path_basename sys p @ '': '' @ msg],
           attempts := attempts st @ [p], install_world := w1\<rparr>"
      by (simp add: install_one_def)
    show ?thesis
      using Cons.IH [of "install_one sys p st"] by (simp add: one step Inl)
  next
    case (Inr u)
    with step have one: "install_one sys p st =
        st\<lparr>installedCount := installedCount st + 1,
           attempts := attempts st @ [p], install_world := w1\<rparr>"
      by (simp add: install_one_def)
    show ?thesis
      using Cons.IH [of "install_one sys p st"] by (simp add: one step Inr)
  qed
qed

lemma length_install_outcomes: "length (install_outcomes sys ps w) = length ps"
  by (induction ps arbitrary: w) (auto split: prod.splits)

lemma failures_and_successes:
  assumes "length os = length ps"
  shows "length (filter (\<lambda>r. \<not> isl r) os)
           + length (filter (\<lambda>(vsixPath, r). isl r) (zip ps os)) = length ps"
proof -
  have "filter (\<lambda>(vsixPath, r). isl r) (zip ps os) = filter (\<lambda>x. isl (snd x)) (zip ps os)"
    by (simp add: split_def)
  moreover have "length (filter (\<lambda>x. isl (snd x)) (zip ps os))
                   = length (filter isl (map snd (zip ps os)))"
    by (simp add: filter_map comp_def)
  moreover have "map snd (zip ps os) = os"
    using assms by simp
  ultimately have "length (filter (\<lambda>(vsixPath, r). isl r) (zip ps os)) = length (filter isl os)"
    by simp
  moreover have "length (filter (\<lambda>r. \<not> isl r) os) + length (filter isl os) = length os"
    using sum_length_filter_compl [of isl os] by simp
  ultimately show ?thesis using assms by simp
qed

text \<open>
  Claim C7. For every list of artifact paths the installs are performed one after the
  other in the order of the list, with no reordering and no deduplication: the paths
  handed to the install command are the list itself. A failure is reported with the file
  name of the artifact and the message of the error, and the loop goes on, so that every
  artifact is attempted; the installed count that is reported is the number of installs
  that succeeded, and successes and failures add up to the length of the list.
\<close>

theorem installs_sequential_isolated:
  "attempts (installSuite sys w vsixPaths) = vsixPaths
   \<and> installedCount (installSuite sys w vsixPaths) =
       length (filter (\<lambda>r. \<not> isl r) (install_outcomes sys vsixPaths w))
   \<and> errorMessages (installSuite sys w vsixPaths) =
       map (\<lambda>(vsixPath, r). ''Failed to install '' @ path_basename sys vsixPath @ '': '' @ projl r)
         (filter (\<lambda>(vsixPath, r). isl r) (zip vsixPaths (install_outcomes sys vsixPaths w)))
   \<and> installedCount (installSuite sys w vsixPaths)
       + length (errorMessages (installSuite sys w vsixPaths)) = length vsixPaths"
proof -
  let ?st = "\<lparr>installedCount = 0, errorMessages = [], attempts = [], install_world = w\<rparr>"
  note g = install_loop_general [of sys vsixPaths ?st]
  note parts = failures_and_successes [OF length_install_outcomes [of sys vsixPaths w]]
  from g parts show ?thesis
    by (simp add: installSuite_def)
qed

theorem installs_sequential_isolated_witness:
  "attempts (installSuite example_sys example_world
      [''/ws/alpha/alpha-1.2.0.vsix'', ''/ws/beta/beta-1.0.0.vsix'', ''/ws/alpha/alpha-1.2.0.vsix''])
     = [''/ws/alpha/alpha-1.2.0.vsix'', ''/ws/beta/beta-1.0.0.vsix'', ''/ws/alpha/alpha-1.2.0.vsix'']
   \<and> installedCount (installSuite example_sys example_world
      [''/ws/alpha/alpha-1.2.0.vsix'', ''/ws/beta/beta-1.0.0.vsix'', ''/ws/alpha/alpha-1.2.0.vsix''])
     = 2
   \<and> errorMessages (installSuite example_sys example_world
      [''/ws/alpha/alpha-1.2.0.vsix'', ''/ws/beta/beta-1.0.0.vsix'', ''/ws/alpha/alpha-1.2.0.vsix''])
     = [''Failed to install beta-1.0.0.vsix: corrupt archive'']"
proof -
  let ?ps = "[''/ws/alpha/alpha-1.2.0.vsix'', ''/ws/beta/beta-1.0.0.vsix'',
              ''/ws/alpha/alpha-1.2.0.vsix'']"
  have os: "install_outcomes example_sys ?ps example_world
              = [Inr (), Inl ''corrupt archive'', Inr ()]"
    by code_simp
  have bn: "path_basename example_sys ''/ws/beta/beta-1.0.0.vsix'' = ''beta-1.0.0.vsix''"
    by code_simp
  note t = installs_sequential_isolated [of example_sys example_world ?ps, unfolded os]
  from t show ?thesis by (simp add: bn)
qed

end
